theory Spec2Isabelle
  imports Main "HOL-Library.Sublist"
begin

section \<open>The voting worker (worker.js) over a versioned document store\<close>

text \<open>
  The worker keeps four JSON documents in a GitHub repository and serves them over
  HTTP. Every operation reads documents with \<open>fetchGitHubFile\<close> and writes them with
  \<open>updateGitHubFile\<close>, which sends back the version token (sha) it read. The model
  below follows worker.js function by function. GitHub itself, the network and the
  other clients of the repository are the environment: a world that holds the
  repository and a script saying, request by request, what the other writers did in
  the meantime and whether the request goes wrong.

  Modelled are \<open>fetchGitHubFile\<close>, \<open>updateGitHubFile\<close> and, of the handler \<open>fetch\<close>, the
  cases check-voting-id, register-candidate and submit-vote of the API switch together
  with the \<open>catch\<close> around it. The CORS preflight, the check that the token is
  configured, the four cases that only read a document and the CORS headers of the
  response are left out, and so are the token and the commit message that the two store
  functions pass on to GitHub: no decision of the worker depends on them.
\<close>

subsection \<open>Constants\<close>

definition CANDIDATES_PATH :: string where
  "CANDIDATES_PATH = ''candidates.json''"

definition VOTES_PATH :: string where
  "VOTES_PATH = ''votes.json''"

definition VOTING_IDS_PATH :: string where
  "VOTING_IDS_PATH = ''voting_ids.json''"

definition USED_VOTING_IDS_PATH :: string where
  "USED_VOTING_IDS_PATH = ''used_voting_ids.json''"

definition MAX_RETRIES :: nat where
  "MAX_RETRIES = 3"

subsection \<open>JavaScript strings and values\<close>

text \<open>
  The strings that requests and documents carry are JavaScript strings: lists of
  characters, each given by its number (a code point; strings are well formed, without
  lone surrogates). \<open>btoa\<close> refuses a string with a character above U+00FF. The
  texts that the worker writes itself (paths, messages) and the texts of error replies,
  in which the worker only looks for the phrase sha mismatch, are strings of bytes;
  \<open>js\<close> reads such a literal as a JavaScript string.
\<close>

type_synonym jstring = "nat list"

definition js :: "string \<Rightarrow> jstring" where
  "js s = map of_char s"

definition wide :: "jstring \<Rightarrow> bool" where
  "wide s = list_ex (\<lambda>c. 255 < c) s"

text \<open>
  The value of a member of a posted or stored JSON object: a string, a number, a
  boolean, null, nothing (the member is missing), or an object or array, of which the
  model keeps the characters of its strings. \<open>truthy\<close> is JavaScript's conversion to
  boolean; \<open>json_text\<close> gives the characters that \<open>JSON.stringify\<close> writes for the value
  as they are (it escapes only quotes, backslashes and control characters).
\<close>

datatype jvalue =
  JString jstring
| JNumber int
| JBool bool
| JNull
| JAbsent
| JComposite jstring

fun truthy :: "jvalue \<Rightarrow> bool" where
  "truthy (JString s) = (s \<noteq> [])"
| "truthy (JNumber n) = (n \<noteq> 0)"
| "truthy (JBool b) = b"
| "truthy JNull = False"
| "truthy JAbsent = False"
| "truthy (JComposite t) = True"

fun json_text :: "jvalue \<Rightarrow> jstring" where
  "json_text (JString s) = s"
| "json_text (JComposite t) = t"
| "json_text (JNumber n) = []"
| "json_text (JBool b) = []"
| "json_text JNull = []"
| "json_text JAbsent = []"

datatype js_error = Error (message: string)

text \<open>\<open>String.prototype.includes\<close>.\<close>

definition str_includes :: "string \<Rightarrow> string \<Rightarrow> bool" where
  "str_includes s sub = sublist sub s"

text \<open>
  The call \<open>v.toLowerCase()\<close> on a value \<open>v\<close> that the source names \<open>expr\<close>: on a string
  it gives the lower-case string, on anything else it throws a TypeError (the messages
  are V8's). \<open>String.prototype.toLowerCase\<close> itself is a table of the runtime, not code
  of the worker: the model takes it as the parameter \<open>toLowerCase\<close> of every function
  that uses it, and what is proved holds whatever that function is.
\<close>

fun call_toLowerCase :: "(jstring \<Rightarrow> jstring) \<Rightarrow> string \<Rightarrow> jvalue \<Rightarrow> js_error + jstring" where
  "call_toLowerCase toLowerCase expr (JString s) = Inr (toLowerCase s)"
| "call_toLowerCase toLowerCase expr JAbsent =
     Inl (Error ''Cannot read properties of undefined (reading 'toLowerCase')'')"
| "call_toLowerCase toLowerCase expr JNull =
     Inl (Error ''Cannot read properties of null (reading 'toLowerCase')'')"
| "call_toLowerCase toLowerCase expr (JNumber n) =
     Inl (Error (expr @ ''.toLowerCase is not a function''))"
| "call_toLowerCase toLowerCase expr (JBool b) =
     Inl (Error (expr @ ''.toLowerCase is not a function''))"
| "call_toLowerCase toLowerCase expr (JComposite t) =
     Inl (Error (expr @ ''.toLowerCase is not a function''))"

text \<open>
  What \<open>btoa\<close> throws on a character above U+00FF, a DOMException named
  InvalidCharacterError. The wording of its message is the runtime's; the worker only
  looks for the phrase sha mismatch in it, which no runtime's wording has.
\<close>

definition InvalidCharacterError :: js_error where
  "InvalidCharacterError = Error ''Invalid character''"

subsection \<open>Documents\<close>

text \<open>
  The items of the four documents. JavaScript reads untyped JSON; the model gives each
  document the items the worker itself writes or expects: a candidate is the object that
  was posted, whose three required members the worker only tests for truthiness before
  it stores them, so that they may be any value; credentials, vote records and used
  ids have string members. A string member that is missing from a posted vote is the
  empty string: the worker tests it for truthiness only, and a missing member and the
  empty string are both falsy.
\<close>

record candidate =
  partyName :: jvalue
  candidateName :: jvalue
  password :: jvalue
  otherFields :: "(jstring \<times> jvalue) list"

record credential =
  cred_id :: jstring
  cred_playerName :: jstring
  cred_gameEdition :: jstring

record vote_record =
  votingId :: jstring
  party :: jstring
  minecraftName :: jstring
  gameEdition :: jstring
  realName :: jstring
  discordInsta :: jstring
  timestamp :: nat

text \<open>The body of a submit-vote request (\<open>voteData\<close>).\<close>

record vote_data =
  vd_votingId :: jstring
  vd_party :: jstring
  vd_realName :: jstring
  vd_discordInsta :: jstring

text \<open>The strings of an item that \<open>JSON.stringify\<close> writes (the member names are ASCII).\<close>

definition candidate_texts :: "candidate \<Rightarrow> jstring list" where
  "candidate_texts c =
     [json_text (partyName c), json_text (candidateName c), json_text (password c)]
     @ concat (map (\<lambda>(k, v). [k, json_text v]) (otherFields c))"

definition credential_texts :: "credential \<Rightarrow> jstring list" where
  "credential_texts c = [cred_id c, cred_playerName c, cred_gameEdition c]"

definition vote_texts :: "vote_record \<Rightarrow> jstring list" where
  "vote_texts v =
     [votingId v, party v, minecraftName v, gameEdition v, realName v, discordInsta v]"

text \<open>
  A version token. GitHub's is a non-empty hexadecimal string, so \<open>if (sha)\<close> is true of
  every token that was read; the model counts versions.
\<close>

type_synonym sha = nat

record 'a blob =
  blob_content :: "'a list"
  blob_sha :: sha

record repo =
  candidates_json :: "candidate blob option"
  votes_json :: "vote_record blob option"
  voting_ids_json :: "credential blob option"
  used_voting_ids_json :: "jstring blob option"

text \<open>
  A file path together with the typed document it names: where \<open>fetchGitHubFile\<close> and
  \<open>updateGitHubFile\<close> take \<open>filePath\<close>, the model takes one of these.
\<close>

record 'a doc =
  doc_path :: string
  doc_read :: "repo \<Rightarrow> 'a blob option"
  doc_write :: "'a blob option \<Rightarrow> repo \<Rightarrow> repo"
  doc_texts :: "'a \<Rightarrow> jstring list"

definition CANDIDATES :: "candidate doc" where
  "CANDIDATES = \<lparr>doc_path = CANDIDATES_PATH, doc_read = candidates_json,
     doc_write = (\<lambda>b r. r\<lparr>candidates_json := b\<rparr>), doc_texts = candidate_texts\<rparr>"

definition VOTES :: "vote_record doc" where
  "VOTES = \<lparr>doc_path = VOTES_PATH, doc_read = votes_json,
     doc_write = (\<lambda>b r. r\<lparr>votes_json := b\<rparr>), doc_texts = vote_texts\<rparr>"

definition VOTING_IDS :: "credential doc" where
  "VOTING_IDS = \<lparr>doc_path = VOTING_IDS_PATH, doc_read = voting_ids_json,
     doc_write = (\<lambda>b r. r\<lparr>voting_ids_json := b\<rparr>), doc_texts = credential_texts\<rparr>"

definition USED_VOTING_IDS :: "jstring doc" where
  "USED_VOTING_IDS = \<lparr>doc_path = USED_VOTING_IDS_PATH, doc_read = used_voting_ids_json,
     doc_write = (\<lambda>b r. r\<lparr>used_voting_ids_json := b\<rparr>), doc_texts = (\<lambda>s. [s])\<rparr>"

text \<open>
  \<open>btoa(JSON.stringify(newContent, null, 2))\<close> throws when a string of the content has a
  character above U+00FF.
\<close>

definition btoa_throws :: "'a doc \<Rightarrow> 'a list \<Rightarrow> bool" where
  "btoa_throws d newContent = list_ex (\<lambda>item. list_ex wide (doc_texts d item)) newContent"

subsection \<open>The environment: GitHub, the network, the other writers\<close>

text \<open>
  A write puts new content under a new version token. The store is the one the worker
  is written for: a write that carries the token of the stored version (or no token
  when nothing is stored) is applied, any other is refused with status 409 and a
  message that mentions a sha mismatch.
\<close>

definition next_sha :: "'a blob option \<Rightarrow> sha" where
  "next_sha b = (case b of None \<Rightarrow> 0 | Some x \<Rightarrow> Suc (blob_sha x))"

definition store :: "'a doc \<Rightarrow> 'a list \<Rightarrow> repo \<Rightarrow> repo" where
  "store d c r =
     doc_write d (Some \<lparr>blob_content = c, blob_sha = next_sha (doc_read d r)\<rparr>) r"

text \<open>A write by another client of the repository.\<close>

datatype ext_write =
  ExtCandidates "candidate list"
| ExtVotes "vote_record list"
| ExtVotingIds "credential list"
| ExtUsedVotingIds "jstring list"

fun ext_apply :: "ext_write \<Rightarrow> repo \<Rightarrow> repo" where
  "ext_apply (ExtCandidates c) r = store CANDIDATES c r"
| "ext_apply (ExtVotes c) r = store VOTES c r"
| "ext_apply (ExtVotingIds c) r = store VOTING_IDS c r"
| "ext_apply (ExtUsedVotingIds c) r = store USED_VOTING_IDS c r"

definition interfere :: "ext_write list \<Rightarrow> repo \<Rightarrow> repo" where
  "interfere ws r = fold ext_apply ws r"

text \<open>
  The body of an error reply. Either it is not JSON: the model has its text and the
  message of the exception that \<open>response.json()\<close> throws on it. Or it is a JSON object:
  the model has its \<open>message\<close> member, a string, if it has one, and the text of its other
  members. The text of the object, for \<open>response.text()\<close> and for \<open>JSON.stringify\<close> alike,
  is then built from these (a message is taken to need no escaping).
\<close>

datatype error_body =
  NotJson string string
| JsonError "string option" string

definition quoted :: "string \<Rightarrow> string" where
  "quoted s = CHR 0x22 # s @ [CHR 0x22]"

fun error_text :: "error_body \<Rightarrow> string" where
  "error_text (NotJson txt m) = txt"
| "error_text (JsonError None others) = ''{'' @ others @ ''}''"
| "error_text (JsonError (Some m) others) =
     ''{'' @ quoted ''message'' @ '':'' @ quoted m @ others @ ''}''"

text \<open>
  What goes wrong with one request: nothing; \<open>fetch\<close> rejects (network); GitHub answers
  with a status that is not ok; the reply is ok but is not JSON; the reply is JSON but
  its base64 content does not parse. A refused or failed request changes nothing in
  the repository.
\<close>

datatype fault =
  NoFault
| Rejected string
| Failed nat string error_body
| Garbled string
| Unparsable string

record event =
  interference :: "ext_write list"
  fault :: fault

definition quiet :: event where
  "quiet = \<lparr>interference = [], fault = NoFault\<rparr>"

text \<open>
  What the worker did to the outside: the requests it sent and the delays it slept.
  \<open>Updated p s a\<close> is a PUT of document \<open>p\<close> carrying token \<open>s\<close>; \<open>a\<close> tells whether
  the store applied it. The world also has the clock that \<open>new Date()\<close> reads, in
  milliseconds; only \<open>setTimeout\<close> moves it.
\<close>

datatype io =
  Fetched string
| Updated string "sha option" bool
| Slept nat

record world =
  repo :: repo
  script :: "event list"
  now :: nat
  trace :: "io list"

fun next_event :: "event list \<Rightarrow> event" where
  "next_event [] = quiet"
| "next_event (e # es) = e"

text \<open>Before a request is served, the writes of the other clients that came first land.\<close>

definition arrive :: "world \<Rightarrow> world" where
  "arrive w = w\<lparr>repo := interfere (interference (next_event (script w))) (repo w),
     script := tl (script w)\<rparr>"

text \<open>
  What the worker sees of a reply. To a GET: \<open>fetch\<close> rejects with a message; the
  reply is not ok (status, status text, body text; a missing document is status 404); the
  reply is ok but \<open>response.json()\<close> throws; the reply is JSON but
  \<open>JSON.parse(atob(data.content))\<close> throws; the reply carries content and sha. To a PUT:
  \<open>fetch\<close> rejects; the reply is not ok (status, status text, body); the reply is ok.
\<close>

datatype 'a get_reply =
  GetRejected string
| GetError nat string string
| GetGarbled string
| GetUnparsable string
| GetData "'a list" sha

datatype put_reply =
  PutRejected string
| PutError nat string error_body
| PutOk

definition github_get :: "'a doc \<Rightarrow> world \<Rightarrow> 'a get_reply \<times> world" where
  "github_get d w =
     (let w' = (arrive w)\<lparr>trace := trace w @ [Fetched (doc_path d)]\<rparr> in
      (case fault (next_event (script w)) of
         NoFault \<Rightarrow>
           (case doc_read d (repo w') of
              None \<Rightarrow> GetError 404 ''Not Found'' (error_text (JsonError (Some ''Not Found'') []))
            | Some b \<Rightarrow> GetData (blob_content b) (blob_sha b))
       | Rejected m \<Rightarrow> GetRejected m
       | Failed st stt b \<Rightarrow> GetError st stt (error_text b)
       | Garbled m \<Rightarrow> GetGarbled m
       | Unparsable m \<Rightarrow> GetUnparsable m,
       w'))"

text \<open>
  GitHub serving a PUT: compare the version sent with the version stored, then apply
  the write or refuse it. A fault in the reply to a GET (garbled, unparsable) does not
  concern a PUT, whose ok reply the worker does not read.
\<close>

definition conflict_body :: error_body where
  "conflict_body = JsonError (Some ''sha mismatch'') []"

definition cas_put :: "'a doc \<Rightarrow> 'a list \<Rightarrow> sha option \<Rightarrow> world \<Rightarrow> put_reply \<times> world" where
  "cas_put d c s w =
     (if map_option blob_sha (doc_read d (repo w)) = s
      then (PutOk, w\<lparr>repo := store d c (repo w),
              trace := trace w @ [Updated (doc_path d) s True]\<rparr>)
      else (PutError 409 ''Conflict'' conflict_body,
            w\<lparr>trace := trace w @ [Updated (doc_path d) s False]\<rparr>))"

definition refuse_put :: "'a doc \<Rightarrow> sha option \<Rightarrow> put_reply \<Rightarrow> world \<Rightarrow> put_reply \<times> world" where
  "refuse_put d s r w = (r, w\<lparr>trace := trace w @ [Updated (doc_path d) s False]\<rparr>)"

definition github_put :: "'a doc \<Rightarrow> 'a list \<Rightarrow> sha option \<Rightarrow> world \<Rightarrow> put_reply \<times> world" where
  "github_put d c s w =
     (case fault (next_event (script w)) of
        Rejected m \<Rightarrow> refuse_put d s (PutRejected m) (arrive w)
      | Failed st stt b \<Rightarrow> refuse_put d s (PutError st stt b) (arrive w)
      | NoFault \<Rightarrow> cas_put d c s (arrive w)
      | Garbled m \<Rightarrow> cas_put d c s (arrive w)
      | Unparsable m \<Rightarrow> cas_put d c s (arrive w))"

text \<open>\<open>setTimeout\<close>: the delay passes on the clock and is recorded.\<close>

definition sleep :: "nat \<Rightarrow> world \<Rightarrow> world" where
  "sleep ms w = w\<lparr>now := now w + ms, trace := trace w @ [Slept ms]\<rparr>"

subsection \<open>fetchGitHubFile and updateGitHubFile\<close>

record 'a file_data =
  content :: "'a list"
  sha :: "sha option"

fun fetch_reply :: "string \<Rightarrow> 'a get_reply \<Rightarrow> js_error + 'a file_data" where
  "fetch_reply filePath (GetRejected m) = Inl (Error m)"
| "fetch_reply filePath (GetError st stt txt) =
     (if st = 404 then Inr \<lparr>content = [], sha = None\<rparr>
      else Inl (Error (''Failed to fetch file from GitHub: '' @ stt @ '' - '' @ txt)))"
| "fetch_reply filePath (GetGarbled m) = Inl (Error m)"
| "fetch_reply filePath (GetUnparsable m) =
     Inl (Error (''Failed to parse file content for '' @ filePath @ '': '' @ m))"
| "fetch_reply filePath (GetData c s) = Inr \<lparr>content = c, sha = Some s\<rparr>"

definition fetchGitHubFile :: "'a doc \<Rightarrow> world \<Rightarrow> (js_error + 'a file_data) \<times> world" where
  "fetchGitHubFile d w =
     (case github_get d w of (reply, w') \<Rightarrow> (fetch_reply (doc_path d) reply, w'))"

text \<open>
  The reply to the PUT as \<open>updateGitHubFile\<close> reads it. On a reply that is not ok it
  takes \<open>response.json()\<close>, which may throw; for status 409 it calls \<open>includes\<close> on the
  \<open>message\<close> member, which throws a TypeError when that is no string.
\<close>

fun update_reply :: "put_reply \<Rightarrow> js_error + bool" where
  "update_reply (PutRejected m) = Inl (Error m)"
| "update_reply PutOk = Inr True"
| "update_reply (PutError st stt (NotJson txt m)) = Inl (Error m)"
| "update_reply (PutError st stt (JsonError msg others)) =
     (if st = 409 then
        (case msg of
           None \<Rightarrow> Inl (Error ''Cannot read properties of undefined (reading 'includes')'')
         | Some m \<Rightarrow>
             if str_includes m ''sha mismatch''
             then Inl (Error ''sha mismatch: File has been updated by another process.'')
             else Inl (Error (''Failed to update file on GitHub: '' @ stt @ '' - ''
                              @ error_text (JsonError msg others))))
      else Inl (Error (''Failed to update file on GitHub: '' @ stt @ '' - ''
                       @ error_text (JsonError msg others))))"

text \<open>
  \<open>btoa\<close> is called before the request is made and outside the \<open>try\<close>: when it throws,
  nothing is sent.
\<close>

definition updateGitHubFile ::
  "'a doc \<Rightarrow> 'a list \<Rightarrow> sha option \<Rightarrow> world \<Rightarrow> (js_error + bool) \<times> world" where
  "updateGitHubFile d newContent s w =
     (if btoa_throws d newContent then (Inl InvalidCharacterError, w)
      else (case github_put d newContent s w of
              (reply, w') \<Rightarrow> (update_reply reply, w')))"

subsection \<open>Responses\<close>

text \<open>
  The two shapes of \<open>responseBody\<close> that the API cases build: \<open>{success, message}\<close> and
  \<open>{success, valid, used, message, playerName, gameEdition}\<close>.
\<close>

datatype response_body =
  Msg bool string
| IdStatus bool bool bool string jstring jstring

record response =
  statusCode :: nat
  responseBody :: response_body

text \<open>The \<open>success\<close> member of a body, and its \<open>used\<close> member if it has one.\<close>

fun success_of :: "response_body \<Rightarrow> bool" where
  "success_of (Msg s m) = s"
| "success_of (IdStatus s v u m p g) = s"

fun used_of :: "response_body \<Rightarrow> bool option" where
  "used_of (Msg s m) = None"
| "used_of (IdStatus s v u m p g) = Some u"

text \<open>The \<open>catch\<close> around the API switch turns an exception into a 500 response.\<close>

definition internal_server_error :: "js_error \<Rightarrow> response" where
  "internal_server_error e =
     \<lparr>statusCode = 500,
      responseBody = Msg False (''Internal Server Error: '' @
        (if message e = [] then ''Unknown error'' else message e))\<rparr>"

fun api_catch :: "(js_error + response) \<times> world \<Rightarrow> response \<times> world" where
  "api_catch (Inr r, w) = (r, w)"
| "api_catch (Inl e, w) = (internal_server_error e, w)"

definition method_not_allowed :: response where
  "method_not_allowed = \<lparr>statusCode = 405, responseBody = Msg False ''Method Not Allowed''\<rparr>"

subsection \<open>The retry loop\<close>

text \<open>
  How one pass through the \<open>try\<close> block of a retry loop ends: with \<open>break\<close> after the
  response was set, by falling off the end of the block, or with an exception.
\<close>

datatype step = Break response | Next | Raise js_error

text \<open>
  The loop \<open>for (let i = 0; i < MAX_RETRIES; i++) { try { ... } catch (e) { ... } }\<close> of
  register-candidate and of submit-vote, from iteration \<open>i\<close> on. \<open>Inr None\<close> is the loop
  running out with the success flag still false.
\<close>

function retry_loop ::
  "(world \<Rightarrow> step \<times> world) \<Rightarrow> nat \<Rightarrow> world \<Rightarrow> (js_error + response option) \<times> world" where
  "retry_loop body i w =
     (if i < MAX_RETRIES then
        (case body w of
           (Break r, w') \<Rightarrow> (Inr (Some r), w')
         | (Next, w') \<Rightarrow> retry_loop body (Suc i) w'
         | (Raise e, w') \<Rightarrow>
             if \<not> str_includes (message e) ''sha mismatch'' then (Inl e, w')
             else retry_loop body (Suc i) (sleep (100 * (i + 1)) w'))
      else (Inr None, w))"
  by pat_completeness auto
termination
  by (relation "measure (\<lambda>(body, i, w). MAX_RETRIES - i)") auto

declare retry_loop.simps [simp del]

subsection \<open>check-voting-id\<close>

text \<open>
  \<open>json\<close> is what \<open>request.json()\<close> gives for the POST form (\<open>Inl\<close>: it throws), reduced to
  the \<open>votingId\<close> field; \<open>param\<close> is \<open>url.searchParams.get('votingId')\<close> for the GET form.
\<close>

definition check_voting_id ::
  "string \<Rightarrow> string + jstring \<Rightarrow> jstring \<Rightarrow> world \<Rightarrow> (js_error + response) \<times> world" where
  "check_voting_id method json param w =
     (if method = ''POST'' then
        (case json of
           Inl m \<Rightarrow> (Inl (Error m), w)
         | Inr vid \<Rightarrow>
             if vid = [] then
               (Inr \<lparr>statusCode = 400, responseBody = Msg False ''Voting ID is required.''\<rparr>, w)
             else
               (case fetchGitHubFile VOTING_IDS w of
                  (Inl e, w1) \<Rightarrow> (Inl e, w1)
                | (Inr validIds, w1) \<Rightarrow>
                    (case fetchGitHubFile USED_VOTING_IDS w1 of
                       (Inl e, w2) \<Rightarrow> (Inl e, w2)
                     | (Inr usedIds, w2) \<Rightarrow>
                         (let isUsed = (vid \<in> set (content usedIds)) in
                          (case find (\<lambda>item. cred_id item = vid) (content validIds) of
                             None \<Rightarrow>
                               (Inr \<lparr>statusCode = 401,
                                     responseBody = Msg False ''Invalid Voting ID.''\<rparr>, w2)
                           | Some foundIdObject \<Rightarrow>
                               (Inr \<lparr>statusCode = 200,
                                     responseBody = IdStatus True True isUsed
                                       (if isUsed then ''Voting ID has already been used.''
                                        else ''Voting ID accepted.'')
                                       (cred_playerName foundIdObject)
                                       (cred_gameEdition foundIdObject)\<rparr>, w2))))))
      else if method = ''GET'' then
        (if param = [] then
           (Inr \<lparr>statusCode = 400, responseBody = Msg False ''Voting ID is required.''\<rparr>, w)
         else
           (case fetchGitHubFile VOTING_IDS w of
              (Inl e, w1) \<Rightarrow> (Inl e, w1)
            | (Inr validIds, w1) \<Rightarrow>
                (case fetchGitHubFile USED_VOTING_IDS w1 of
                   (Inl e, w2) \<Rightarrow> (Inl e, w2)
                 | (Inr usedIds, w2) \<Rightarrow>
                     (let isUsed = (param \<in> set (content usedIds)) in
                      (case find (\<lambda>item. cred_id item = param) (content validIds) of
                         None \<Rightarrow>
                           (Inr \<lparr>statusCode = 401,
                                 responseBody = Msg False ''Invalid Voting ID.''\<rparr>, w2)
                       | Some foundIdObject \<Rightarrow>
                           (Inr \<lparr>statusCode = 200,
                                 responseBody = IdStatus True True isUsed
                                   ''Voting ID status retrieved.''
                                   (cred_playerName foundIdObject)
                                   (cred_gameEdition foundIdObject)\<rparr>, w2))))))
      else (Inr method_not_allowed, w))"

definition api_check_voting_id ::
  "string \<Rightarrow> string + jstring \<Rightarrow> jstring \<Rightarrow> world \<Rightarrow> response \<times> world" where
  "api_check_voting_id method json param w = api_catch (check_voting_id method json param w)"

subsection \<open>register-candidate\<close>

text \<open>
  \<open>candidates.some(c => c.partyName.toLowerCase() === newCandidate.partyName.toLowerCase())\<close>:
  the candidates are visited in order; for each, the two calls are made, either of which
  may throw, and the visit ends at the first pair of equal results.
\<close>

fun candidates_some ::
  "(jstring \<Rightarrow> jstring) \<Rightarrow> candidate \<Rightarrow> candidate list \<Rightarrow> js_error + bool" where
  "candidates_some toLowerCase newCandidate [] = Inr False"
| "candidates_some toLowerCase newCandidate (c # cs) =
     (case call_toLowerCase toLowerCase ''c.partyName'' (partyName c) of
        Inl e \<Rightarrow> Inl e
      | Inr a \<Rightarrow>
          (case call_toLowerCase toLowerCase ''newCandidate.partyName''
                  (partyName newCandidate) of
             Inl e \<Rightarrow> Inl e
           | Inr b \<Rightarrow>
               if a = b then Inr True else candidates_some toLowerCase newCandidate cs))"

text \<open>The body of the \<open>try\<close> block of register-candidate.\<close>

definition register_try ::
  "(jstring \<Rightarrow> jstring) \<Rightarrow> candidate \<Rightarrow> world \<Rightarrow> step \<times> world" where
  "register_try toLowerCase newCandidate w =
     (case fetchGitHubFile CANDIDATES w of
        (Inl e, w1) \<Rightarrow> (Raise e, w1)
      | (Inr candidatesData, w1) \<Rightarrow>
          (case candidates_some toLowerCase newCandidate (content candidatesData) of
             Inl e \<Rightarrow> (Raise e, w1)
           | Inr True \<Rightarrow>
               (Break \<lparr>statusCode = 409,
                       responseBody = Msg False ''A party with this name already exists.''\<rparr>,
                w1)
           | Inr False \<Rightarrow>
               (case updateGitHubFile CANDIDATES (content candidatesData @ [newCandidate])
                       (sha candidatesData) w1 of
                  (Inl e, w2) \<Rightarrow> (Raise e, w2)
                | (Inr success, w2) \<Rightarrow>
                    if success
                    then (Break \<lparr>statusCode = 200,
                                 responseBody = Msg True
                                   ''Candidate registered successfully.''\<rparr>, w2)
                    else (Next, w2))))"

text \<open>
  \<open>json\<close> is what \<open>request.json()\<close> gives, read as an object (\<open>Inl\<close>: it throws, or it
  gives null and the first member access throws; a body that is another value than an
  object has none of the members).
\<close>

definition register_candidate ::
  "(jstring \<Rightarrow> jstring) \<Rightarrow> string \<Rightarrow> string + candidate \<Rightarrow> world
     \<Rightarrow> (js_error + response) \<times> world" where
  "register_candidate toLowerCase method json w =
     (if method = ''POST'' then
        (case json of
           Inl m \<Rightarrow> (Inl (Error m), w)
         | Inr newCandidate \<Rightarrow>
             if \<not> truthy (partyName newCandidate) \<or> \<not> truthy (candidateName newCandidate)
                \<or> \<not> truthy (password newCandidate)
             then (Inr \<lparr>statusCode = 400,
                        responseBody = Msg False
                          ''Missing required candidate fields (partyName, candidateName, password).''\<rparr>,
                   w)
             else
               (case retry_loop (register_try toLowerCase newCandidate) 0 w of
                  (Inl e, w') \<Rightarrow> (Inl e, w')
                | (Inr (Some r), w') \<Rightarrow> (Inr r, w')
                | (Inr None, w') \<Rightarrow>
                    (Inr \<lparr>statusCode = 500,
                          responseBody = Msg False
                            ''Failed to register candidate after multiple retries due to concurrent updates.''\<rparr>,
                     w')))
      else (Inr method_not_allowed, w))"

definition api_register_candidate ::
  "(jstring \<Rightarrow> jstring) \<Rightarrow> string \<Rightarrow> string + candidate \<Rightarrow> world \<Rightarrow> response \<times> world" where
  "api_register_candidate toLowerCase method json w =
     api_catch (register_candidate toLowerCase method json w)"

subsection \<open>submit-vote\<close>

text \<open>
  The object literal \<open>finalVoteRecord\<close>, as a function of what it is built from: the
  request body, the credential found and the time \<open>new Date()\<close> reads.
\<close>

definition finalVoteRecord :: "vote_data \<Rightarrow> credential \<Rightarrow> nat \<Rightarrow> vote_record" where
  "finalVoteRecord voteData foundIdObject t =
     \<lparr>votingId = vd_votingId voteData,
      party = vd_party voteData,
      minecraftName = cred_playerName foundIdObject,
      gameEdition = cred_gameEdition foundIdObject,
      realName = vd_realName voteData,
      discordInsta = vd_discordInsta voteData,
      timestamp = t\<rparr>"

text \<open>The body of the \<open>try\<close> block of submit-vote.\<close>

definition submit_vote_try :: "vote_data \<Rightarrow> world \<Rightarrow> step \<times> world" where
  "submit_vote_try voteData w =
     (case fetchGitHubFile VOTING_IDS w of
        (Inl e, w1) \<Rightarrow> (Raise e, w1)
      | (Inr validIds, w1) \<Rightarrow>
          (case find (\<lambda>item. cred_id item = vd_votingId voteData) (content validIds) of
             None \<Rightarrow>
               (Break \<lparr>statusCode = 401,
                       responseBody = Msg False
                         ''Invalid Voting ID provided for vote submission.''\<rparr>, w1)
           | Some foundIdObject \<Rightarrow>
               (case fetchGitHubFile USED_VOTING_IDS w1 of
                  (Inl e, w2) \<Rightarrow> (Raise e, w2)
                | (Inr usedIdsData, w2) \<Rightarrow>
                    if vd_votingId voteData \<in> set (content usedIdsData)
                    then (Break \<lparr>statusCode = 200,
                                 responseBody = Msg True
                                   ''This Voting ID has already been used to vote.''\<rparr>, w2)
                    else
                      (case fetchGitHubFile VOTES w2 of
                         (Inl e, w3) \<Rightarrow> (Raise e, w3)
                       | (Inr votesFile, w3) \<Rightarrow>
                           (let currentVotes = content votesFile @
                                  [finalVoteRecord voteData foundIdObject (now w3)];
                                usedIds = content usedIdsData @ [vd_votingId voteData]
                            in
                            (case updateGitHubFile VOTES currentVotes (sha votesFile) w3 of
                               (Inl e, w4) \<Rightarrow> (Raise e, w4)
                             | (Inr votesUpdated, w4) \<Rightarrow>
                                 if \<not> votesUpdated
                                 then (Raise (Error ''Failed to update votes.json''), w4)
                                 else
                                   (case updateGitHubFile USED_VOTING_IDS usedIds
                                           (sha usedIdsData) w4 of
                                      (Inl e, w5) \<Rightarrow> (Raise e, w5)
                                    | (Inr usedIdsUpdated, w5) \<Rightarrow>
                                        if \<not> usedIdsUpdated
                                        then (Raise (Error
                                                ''Failed to update used_voting_ids.json''), w5)
                                        else (Break \<lparr>statusCode = 200,
                                                     responseBody = Msg True
                                                       ''Vote submitted successfully.''\<rparr>,
                                              w5))))))))"

definition submit_vote ::
  "string \<Rightarrow> string + vote_data \<Rightarrow> world \<Rightarrow> (js_error + response) \<times> world" where
  "submit_vote method json w =
     (if method = ''POST'' then
        (case json of
           Inl m \<Rightarrow> (Inl (Error m), w)
         | Inr voteData \<Rightarrow>
             if vd_votingId voteData = [] \<or> vd_party voteData = []
             then (Inr \<lparr>statusCode = 400,
                        responseBody = Msg False
                          ''Missing voting ID or party for vote submission.''\<rparr>, w)
             else
               (case retry_loop (submit_vote_try voteData) 0 w of
                  (Inl e, w') \<Rightarrow> (Inl e, w')
                | (Inr (Some r), w') \<Rightarrow> (Inr r, w')
                | (Inr None, w') \<Rightarrow>
                    (Inr \<lparr>statusCode = 500,
                          responseBody = Msg False
                            ''Failed to submit vote after multiple retries due to concurrent updates.''\<rparr>,
                     w')))
      else (Inr method_not_allowed, w))"

definition api_submit_vote ::
  "string \<Rightarrow> string + vote_data \<Rightarrow> world \<Rightarrow> response \<times> world" where
  "api_submit_vote method json w = api_catch (submit_vote method json w)"


subsection \<open>Notions the properties are stated with\<close>

text \<open>A request that writes; a write that the store applied; one applied to another path.\<close>

fun is_write :: "io \<Rightarrow> bool" where
  "is_write (Updated p s a) = True"
| "is_write (Fetched p) = False"
| "is_write (Slept n) = False"

fun applied :: "io \<Rightarrow> bool" where
  "applied (Updated p s a) = a"
| "applied (Fetched p) = False"
| "applied (Slept n) = False"

fun applied_outside :: "string \<Rightarrow> io \<Rightarrow> bool" where
  "applied_outside p (Updated q s a) = (a \<and> q \<noteq> p)"
| "applied_outside p (Fetched q) = False"
| "applied_outside p (Slept n) = False"

text \<open>No other client writes while the script runs.\<close>

definition undisturbed :: "event list \<Rightarrow> bool" where
  "undisturbed s = list_all (\<lambda>ev. interference ev = []) s"

text \<open>The first \<open>n\<close> requests meet no fault and no other writer.\<close>

fun calm :: "nat \<Rightarrow> event list \<Rightarrow> bool" where
  "calm 0 s = True"
| "calm (Suc n) [] = True"
| "calm (Suc n) (e # es) = (e = quiet \<and> calm n es)"

text \<open>The items of a stored document; a document that was never written has none.\<close>

definition items :: "'a blob option \<Rightarrow> 'a list" where
  "items b = (case b of None \<Rightarrow> [] | Some x \<Rightarrow> blob_content x)"

text \<open>
  The party names that are strings, and two values that are strings equal up to letter
  case, which is to say strings that \<open>toLowerCase\<close> makes equal.
\<close>

fun string_of :: "jvalue \<Rightarrow> jstring option" where
  "string_of (JString s) = Some s"
| "string_of (JNumber n) = None"
| "string_of (JBool b) = None"
| "string_of JNull = None"
| "string_of JAbsent = None"
| "string_of (JComposite t) = None"

definition party_names :: "candidate list \<Rightarrow> jstring list" where
  "party_names cs = List.map_filter (\<lambda>c. string_of (partyName c)) cs"

definition same_up_to_case :: "(jstring \<Rightarrow> jstring) \<Rightarrow> jvalue \<Rightarrow> jvalue \<Rightarrow> bool" where
  "same_up_to_case toLowerCase x y =
     (case (string_of x, string_of y) of
        (Some a, Some b) \<Rightarrow> toLowerCase a = toLowerCase b
      | _ \<Rightarrow> False)"

text \<open>No two candidates have party names that are equal up to letter case.\<close>

definition party_unique :: "(jstring \<Rightarrow> jstring) \<Rightarrow> candidate list \<Rightarrow> bool" where
  "party_unique toLowerCase cs = distinct (map toLowerCase (party_names cs))"

fun ext_ok :: "(jstring \<Rightarrow> jstring) \<Rightarrow> ext_write \<Rightarrow> bool" where
  "ext_ok toLowerCase (ExtCandidates cs) = party_unique toLowerCase cs"
| "ext_ok toLowerCase (ExtVotes vs) = True"
| "ext_ok toLowerCase (ExtVotingIds ids) = True"
| "ext_ok toLowerCase (ExtUsedVotingIds us) = True"

definition tidy :: "(jstring \<Rightarrow> jstring) \<Rightarrow> event list \<Rightarrow> bool" where
  "tidy toLowerCase s = list_all (\<lambda>ev. list_all (ext_ok toLowerCase) (interference ev)) s"

text \<open>
  The candidates document keeps party names apart, and so does every write that other
  clients are going to make to it.
\<close>

definition candidates_ok :: "(jstring \<Rightarrow> jstring) \<Rightarrow> world \<Rightarrow> bool" where
  "candidates_ok toLowerCase w =
     (party_unique toLowerCase (items (candidates_json (repo w))) \<and>
      tidy toLowerCase (script w))"

subsection \<open>Sample data\<close>

text \<open>
  A function that does to the letters A to Z what \<open>toLowerCase\<close> does, for samples whose
  party names are ASCII.
\<close>

definition ascii_lower :: "jstring \<Rightarrow> jstring" where
  "ascii_lower s = map (\<lambda>n. if 65 \<le> n \<and> n \<le> 90 then n + 32 else n) s"

definition steve :: credential where
  "steve = \<lparr>cred_id = js ''ABC123'', cred_playerName = js ''Steve'',
     cred_gameEdition = js ''Java''\<rparr>"

definition alex :: credential where
  "alex = \<lparr>cred_id = js ''XYZ789'', cred_playerName = js ''Alex'',
     cred_gameEdition = js ''Bedrock''\<rparr>"

definition ballot :: vote_data where
  "ballot = \<lparr>vd_votingId = js ''ABC123'', vd_party = js ''Red'', vd_realName = [],
     vd_discordInsta = []\<rparr>"

definition stranger :: vote_data where
  "stranger = \<lparr>vd_votingId = js ''ZZZ'', vd_party = js ''Red'', vd_realName = [],
     vd_discordInsta = []\<rparr>"

definition red :: candidate where
  "red = \<lparr>partyName = JString (js ''Red''), candidateName = JString (js ''Rosa''),
     password = JString (js ''pw''), otherFields = []\<rparr>"

definition red_again :: candidate where
  "red_again = \<lparr>partyName = JString (js ''RED''), candidateName = JString (js ''Rob''),
     password = JString (js ''pw2''), otherFields = []\<rparr>"

text \<open>A repository holding only the two credentials, and one where ABC123 has voted.\<close>

definition unvoted :: repo where
  "unvoted = \<lparr>candidates_json = None, votes_json = None,
     voting_ids_json = Some \<lparr>blob_content = [steve, alex], blob_sha = 0\<rparr>,
     used_voting_ids_json = None\<rparr>"

definition voted :: repo where
  "voted = \<lparr>candidates_json = Some \<lparr>blob_content = [red], blob_sha = 0\<rparr>,
     votes_json = Some \<lparr>blob_content = [finalVoteRecord ballot steve 5], blob_sha = 0\<rparr>,
     voting_ids_json = Some \<lparr>blob_content = [steve, alex], blob_sha = 0\<rparr>,
     used_voting_ids_json = Some \<lparr>blob_content = [js ''ABC123''], blob_sha = 0\<rparr>\<rparr>"

definition world_of :: "repo \<Rightarrow> event list \<Rightarrow> world" where
  "world_of r s = \<lparr>repo = r, script = s, now = 1000, trace = []\<rparr>"

text \<open>A reply with status 409 whose message mentions a sha mismatch, sent whatever is stored.\<close>

definition conflict :: event where
  "conflict = \<lparr>interference = [], fault = Failed 409 ''Conflict'' conflict_body\<rparr>"

text \<open>
  XYZ789 has a vote recorded and its id not yet marked: the state between the two
  writes of its own submission.
\<close>

definition alex_ballot :: vote_data where
  "alex_ballot = \<lparr>vd_votingId = js ''XYZ789'', vd_party = js ''Blue'', vd_realName = [],
     vd_discordInsta = []\<rparr>"

definition alex_midway :: repo where
  "alex_midway = \<lparr>candidates_json = None,
     votes_json = Some \<lparr>blob_content = [finalVoteRecord alex_ballot alex 900], blob_sha = 0\<rparr>,
     voting_ids_json = Some \<lparr>blob_content = [steve, alex], blob_sha = 0\<rparr>,
     used_voting_ids_json = None\<rparr>"

text \<open>Another client marks an id between this worker's read and its write of the marks.\<close>

definition marks :: "string list \<Rightarrow> event" where
  "marks ids = \<lparr>interference = [ExtUsedVotingIds (map js ids)], fault = NoFault\<rparr>"

definition one_mark :: "event list" where
  "one_mark = [quiet, quiet, quiet, quiet, marks [''XYZ789'']]"

definition three_marks :: "event list" where
  "three_marks =
     [quiet, quiet, quiet, quiet, marks [''XYZ789''],
      quiet, quiet, quiet, quiet, marks [''XYZ789'', ''QRS456''],
      quiet, quiet, quiet, quiet, marks [''XYZ789'', ''QRS456'', ''TUV000'']]"


definition bad_gateway_json :: event where
  "bad_gateway_json = \<lparr>interference = [],
     fault = Failed 502 ''Bad Gateway'' (JsonError (Some ''upstream sha mismatch'') [])\<rparr>"

text \<open>A reply with status 500 and a JSON body.\<close>

definition server_error :: event where
  "server_error = \<lparr>interference = [],
     fault = Failed 500 ''Internal Server Error'' (JsonError (Some ''Server Error'') [])\<rparr>"

text \<open>Three attempts of a registration, each of which loses the race for the document.\<close>

definition contended :: world where
  "contended = world_of unvoted [quiet, conflict, quiet, conflict, quiet, conflict]"

text \<open>What \<open>updateGitHubFile\<close> throws on a version conflict.\<close>

definition sha_mismatch_error :: js_error where
  "sha_mismatch_error = Error ''sha mismatch: File has been updated by another process.''"

text \<open>A vote for a party whose name has a character above U+00FF.\<close>

definition wide_ballot :: vote_data where
  "wide_ballot = \<lparr>vd_votingId = js ''ABC123'', vd_party = [321, 243, 100, 378],
     vd_realName = [], vd_discordInsta = []\<rparr>"

text \<open>
  A candidate whose party name is the number 5, and a repository whose candidates
  document holds it before the candidate of party Red.
\<close>

definition five :: candidate where
  "five = \<lparr>partyName = JNumber 5, candidateName = JString (js ''Quint''),
     password = JString (js ''pw5''), otherFields = []\<rparr>"

definition numbered :: repo where
  "numbered = voted\<lparr>candidates_json := Some \<lparr>blob_content = [five, red], blob_sha = 0\<rparr>\<rparr>"

section \<open>Properties\<close>

subsection \<open>The environment and the two store functions\<close>

lemma next_event_undisturbed: "undisturbed s \<Longrightarrow> interference (next_event s) = []"
  by (cases s) (simp_all add: undisturbed_def quiet_def)

lemma undisturbed_tl: "undisturbed s \<Longrightarrow> undisturbed (tl s)"
  by (cases s) (simp_all add: undisturbed_def)

lemma arrive_fields [simp]:
  "script (arrive w) = tl (script w)" "now (arrive w) = now w" "trace (arrive w) = trace w"
  by (simp_all add: arrive_def)

lemma arrive_trace_update [simp]: "arrive (w\<lparr>trace := t\<rparr>) = (arrive w)\<lparr>trace := t\<rparr>"
  by (simp add: arrive_def)

lemma repo_arrive: "undisturbed (script w) \<Longrightarrow> repo (arrive w) = repo w"
  by (simp add: arrive_def next_event_undisturbed interfere_def)

lemma sleep_fields [simp]:
  "trace (sleep ms w) = trace w @ [Slept ms]" "repo (sleep ms w) = repo w"
  "script (sleep ms w) = script w" "now (sleep ms w) = now w + ms"
  by (simp_all add: sleep_def)

text \<open>Whatever the reply, a read leaves the world as the other writers made it.\<close>

lemma fetch_world:
  "fetchGitHubFile d w = (r, w') \<Longrightarrow> w' = (arrive w)\<lparr>trace := trace w @ [Fetched (doc_path d)]\<rparr>"
  by (auto simp: fetchGitHubFile_def github_get_def Let_def split: prod.splits)

text \<open>
  A write either returns true, and then the store held the version sent and now holds
  the new content, or it throws after the request, and then the store holds what it
  held, or it throws in \<open>btoa\<close>, and then nothing was sent.
\<close>

lemma update_world:
  assumes "updateGitHubFile d c s w = (r, w')"
  shows "(r = Inr True \<and> \<not> btoa_throws d c \<and>
          map_option blob_sha (doc_read d (repo (arrive w))) = s \<and>
          w' = (arrive w)\<lparr>repo := store d c (repo (arrive w)),
                           trace := trace w @ [Updated (doc_path d) s True]\<rparr>)
       \<or> ((\<exists>e. r = Inl e) \<and> \<not> btoa_throws d c \<and>
          w' = (arrive w)\<lparr>trace := trace w @ [Updated (doc_path d) s False]\<rparr>)
       \<or> (r = Inl InvalidCharacterError \<and> btoa_throws d c \<and> w' = w)"
proof (cases "btoa_throws d c")
  case True
  with assms show ?thesis
    by (simp add: updateGitHubFile_def)
next
  case False
  show ?thesis
  proof (cases "fault (next_event (script w))")
    case NoFault
    with assms False show ?thesis
      by (auto simp: updateGitHubFile_def github_put_def cas_put_def conflict_body_def
            str_includes_def split: if_splits)
  next
    case (Rejected m)
    with assms False show ?thesis
      by (auto simp: updateGitHubFile_def github_put_def refuse_put_def)
  next
    case (Failed st stt b)
    with assms False show ?thesis
      by (cases b)
         (auto simp: updateGitHubFile_def github_put_def refuse_put_def
            split: option.splits if_splits)
  next
    case (Garbled m)
    with assms False show ?thesis
      by (auto simp: updateGitHubFile_def github_put_def cas_put_def conflict_body_def
            str_includes_def split: if_splits)
  next
    case (Unparsable m)
    with assms False show ?thesis
      by (auto simp: updateGitHubFile_def github_put_def cas_put_def conflict_body_def
            str_includes_def split: if_splits)
  qed
qed

lemma calm_Nil [simp]: "calm n []"
  by (cases n) simp_all

lemma calm_next: "calm (Suc n) s \<Longrightarrow> next_event s = quiet \<and> calm n (tl s)"
  by (cases s) simp_all

lemma arrive_calm: "calm (Suc n) (script w) \<Longrightarrow> arrive w = w\<lparr>script := tl (script w)\<rparr>"
  by (simp add: arrive_def calm_next quiet_def interfere_def)

lemma fetch_calm:
  assumes "calm (Suc n) (script w)"
  shows "fetchGitHubFile d w =
     (Inr \<lparr>content = items (doc_read d (repo w)),
           sha = map_option blob_sha (doc_read d (repo w))\<rparr>,
      w\<lparr>script := tl (script w), trace := trace w @ [Fetched (doc_path d)]\<rparr>)"
  using assms
  by (simp add: fetchGitHubFile_def github_get_def arrive_calm calm_next [of n] quiet_def
      items_def split: option.splits)

lemma update_calm:
  assumes "calm (Suc n) (script w)" and "map_option blob_sha (doc_read d (repo w)) = s"
    and "\<not> btoa_throws d c"
  shows "updateGitHubFile d c s w =
     (Inr True, w\<lparr>repo := store d c (repo w), script := tl (script w),
                  trace := trace w @ [Updated (doc_path d) s True]\<rparr>)"
  using assms
  by (simp add: updateGitHubFile_def github_put_def cas_put_def arrive_calm calm_next [of n]
      quiet_def)

subsection \<open>The retry loop\<close>

lemma retry_loop_first:
  "retry_loop body 0 w =
     (case body w of
        (Break r, w') \<Rightarrow> (Inr (Some r), w')
      | (Next, w') \<Rightarrow> retry_loop body (Suc 0) w'
      | (Raise e, w') \<Rightarrow>
          if \<not> str_includes (message e) ''sha mismatch'' then (Inl e, w')
          else retry_loop body (Suc 0) (sleep 100 w'))"
  by (simp add: retry_loop.simps [of body 0] MAX_RETRIES_def split: prod.splits step.splits)

lemma retry_loop_raise:
  assumes "i < MAX_RETRIES" and "body w = (Raise e, w')"
  shows "retry_loop body i w =
     (if str_includes (message e) ''sha mismatch''
      then retry_loop body (Suc i) (sleep (100 * (i + 1)) w') else (Inl e, w'))"
  using assms by (simp add: retry_loop.simps [of body i])

lemma retry_loop_over: "MAX_RETRIES \<le> i \<Longrightarrow> retry_loop body i w = (Inr None, w)"
  by (simp add: retry_loop.simps [of body i])

lemma retry_loop_exhausted:
  assumes "body w = (Raise e1, w1)" "str_includes (message e1) ''sha mismatch''"
    and "body (sleep 100 w1) = (Raise e2, w2)" "str_includes (message e2) ''sha mismatch''"
    and "body (sleep 200 w2) = (Raise e3, w3)" "str_includes (message e3) ''sha mismatch''"
  shows "retry_loop body 0 w = (Inr None, sleep 300 w3)"
proof -
  have "retry_loop body 0 w = retry_loop body (Suc 0) (sleep 100 w1)"
    using retry_loop_raise [of 0 body w e1 w1] assms(1,2) by (simp add: MAX_RETRIES_def)
  also have "\<dots> = retry_loop body (Suc (Suc 0)) (sleep 200 w2)"
    using retry_loop_raise [of "Suc 0" body "sleep 100 w1" e2 w2] assms(3,4)
    by (simp add: MAX_RETRIES_def)
  also have "\<dots> = retry_loop body (Suc (Suc (Suc 0))) (sleep 300 w3)"
    using retry_loop_raise [of "Suc (Suc 0)" body "sleep 200 w2" e3 w3] assms(5,6)
    by (simp add: MAX_RETRIES_def)
  also have "\<dots> = (Inr None, sleep 300 w3)"
    by (rule retry_loop_over) (simp add: MAX_RETRIES_def)
  finally show ?thesis .
qed

subsection \<open>Evaluating the model on the sample data\<close>

lemmas sample_defs =
  steve_def alex_def ballot_def red_def unvoted_def voted_def world_of_def quiet_def
  finalVoteRecord_def

lemmas path_defs =
  CANDIDATES_def VOTES_def VOTING_IDS_def USED_VOTING_IDS_def
  CANDIDATES_PATH_def VOTES_PATH_def VOTING_IDS_PATH_def USED_VOTING_IDS_PATH_def

lemmas store_defs =
  fetchGitHubFile_def updateGitHubFile_def github_get_def github_put_def cas_put_def
  refuse_put_def arrive_def interfere_def store_def next_sha_def sleep_def conflict_body_def
  btoa_throws_def vote_texts_def candidate_texts_def credential_texts_def quoted_def

lemma str_includes_simps [simp]:
  "str_includes s [] = True"
  "str_includes [] (x # xs) = False"
  "str_includes (y # ys) (x # xs) = (prefix (x # xs) (y # ys) \<or> str_includes ys (x # xs))"
  by (simp_all add: str_includes_def sublist_Cons_right)

lemma js_eq_iff [simp]: "js a = js b \<longleftrightarrow> a = b"
  by (simp add: js_def inj_map_eq_map inj_on_def)

lemma js_Nil_iff [simp]: "js a = [] \<longleftrightarrow> a = []"
  by (simp add: js_def)

lemma of_char_small: "(of_char c :: nat) \<le> 255"
proof -
  have "(of_char c :: nat) mod 256 < 256"
    by simp
  then have "(of_char c :: nat) < 256"
    by (simp only: of_char_mod_256)
  then show ?thesis
    by linarith
qed

lemma not_wide_js [simp]: "\<not> wide (js s)"
  by (simp add: wide_def js_def list_ex_iff not_less of_char_small)

lemma not_wide_Nil [simp]: "\<not> wide []"
  by (simp add: wide_def)

subsection \<open>A vote that meets no fault and no other writer\<close>

lemma submit_vote_calm:
  assumes "vd_votingId voteData \<noteq> []" and "vd_party voteData \<noteq> []"
    and "calm 5 (script w)"
    and "find (\<lambda>item. cred_id item = vd_votingId voteData)
           (items (voting_ids_json (repo w))) = Some c"
    and "vd_votingId voteData \<notin> set (items (used_voting_ids_json (repo w)))"
    and "\<not> btoa_throws VOTES
           (items (votes_json (repo w)) @ [finalVoteRecord voteData c (now w)])"
    and "\<not> btoa_throws USED_VOTING_IDS
           (items (used_voting_ids_json (repo w)) @ [vd_votingId voteData])"
  shows "api_submit_vote ''POST'' (Inr voteData) w =
     (\<lparr>statusCode = 200, responseBody = Msg True ''Vote submitted successfully.''\<rparr>,
      w\<lparr>repo := store USED_VOTING_IDS
                 (items (used_voting_ids_json (repo w)) @ [vd_votingId voteData])
                 (store VOTES
                   (items (votes_json (repo w)) @ [finalVoteRecord voteData c (now w)])
                   (repo w)),
        script := tl (tl (tl (tl (tl (script w))))),
        trace := trace w @
          [Fetched VOTING_IDS_PATH, Fetched USED_VOTING_IDS_PATH, Fetched VOTES_PATH,
           Updated VOTES_PATH (map_option blob_sha (votes_json (repo w))) True,
           Updated USED_VOTING_IDS_PATH
             (map_option blob_sha (used_voting_ids_json (repo w))) True]\<rparr>)"
proof -
  have c5: "calm (Suc (Suc (Suc (Suc (Suc 0))))) (script w)"
    using assms(3) by (simp add: eval_nat_numeral)
  have c4: "calm (Suc (Suc (Suc (Suc 0)))) (tl (script w))"
    using calm_next [OF c5] by simp
  have c3: "calm (Suc (Suc (Suc 0))) (tl (tl (script w)))"
    using calm_next [OF c4] by simp
  have c2: "calm (Suc (Suc 0)) (tl (tl (tl (script w))))"
    using calm_next [OF c3] by simp
  have c1: "calm (Suc 0) (tl (tl (tl (tl (script w)))))"
    using calm_next [OF c2] by simp
  define w1 where
    "w1 = w\<lparr>script := tl (script w), trace := trace w @ [Fetched (doc_path VOTING_IDS)]\<rparr>"
  define w2 where
    "w2 = w1\<lparr>script := tl (script w1),
             trace := trace w1 @ [Fetched (doc_path USED_VOTING_IDS)]\<rparr>"
  define w3 where
    "w3 = w2\<lparr>script := tl (script w2), trace := trace w2 @ [Fetched (doc_path VOTES)]\<rparr>"
  define votes where
    "votes = items (votes_json (repo w)) @ [finalVoteRecord voteData c (now w)]"
  define used where
    "used = items (used_voting_ids_json (repo w)) @ [vd_votingId voteData]"
  define w4 where
    "w4 = w3\<lparr>repo := store VOTES votes (repo w3), script := tl (script w3),
             trace := trace w3 @
               [Updated (doc_path VOTES) (map_option blob_sha (votes_json (repo w))) True]\<rparr>"
  define w5 where
    "w5 = w4\<lparr>repo := store USED_VOTING_IDS used (repo w4), script := tl (script w4),
             trace := trace w4 @
               [Updated (doc_path USED_VOTING_IDS)
                  (map_option blob_sha (used_voting_ids_json (repo w))) True]\<rparr>"
  have f1: "fetchGitHubFile VOTING_IDS w =
      (Inr \<lparr>content = items (voting_ids_json (repo w)),
            sha = map_option blob_sha (voting_ids_json (repo w))\<rparr>, w1)"
    using fetch_calm [OF c5, of VOTING_IDS] by (simp add: w1_def VOTING_IDS_def)
  have f2: "fetchGitHubFile USED_VOTING_IDS w1 =
      (Inr \<lparr>content = items (used_voting_ids_json (repo w)),
            sha = map_option blob_sha (used_voting_ids_json (repo w))\<rparr>, w2)"
    using fetch_calm [of _ w1 USED_VOTING_IDS] c4
    by (simp add: w1_def w2_def USED_VOTING_IDS_def)
  have f3: "fetchGitHubFile VOTES w2 =
      (Inr \<lparr>content = items (votes_json (repo w)),
            sha = map_option blob_sha (votes_json (repo w))\<rparr>, w3)"
    using fetch_calm [of _ w2 VOTES] c3 by (simp add: w1_def w2_def w3_def VOTES_def)
  have u1: "updateGitHubFile VOTES votes (map_option blob_sha (votes_json (repo w))) w3 =
      (Inr True, w4)"
    using update_calm [of _ w3 VOTES _ votes] c2 assms(6)
    by (simp add: w1_def w2_def w3_def w4_def VOTES_def votes_def)
  have u2: "updateGitHubFile USED_VOTING_IDS used
      (map_option blob_sha (used_voting_ids_json (repo w))) w4 = (Inr True, w5)"
    using update_calm [of _ w4 USED_VOTING_IDS _ used] c1 assms(7)
    by (simp add: w1_def w2_def w3_def w4_def w5_def VOTES_def USED_VOTING_IDS_def store_def
        used_def)
  have n3: "now w3 = now w"
    by (simp add: w1_def w2_def w3_def)
  have attempt: "submit_vote_try voteData w =
      (Break \<lparr>statusCode = 200, responseBody = Msg True ''Vote submitted successfully.''\<rparr>,
       w5)"
    using assms(4,5) u1 u2
    by (simp add: submit_vote_try_def f1 f2 f3 n3 votes_def used_def)
  have "api_submit_vote ''POST'' (Inr voteData) w =
      (\<lparr>statusCode = 200, responseBody = Msg True ''Vote submitted successfully.''\<rparr>, w5)"
    using assms(1,2) by (simp add: api_submit_vote_def submit_vote_def retry_loop_first attempt)
  then show ?thesis
    by (simp add: w1_def w2_def w3_def w4_def w5_def VOTES_def USED_VOTING_IDS_def
        VOTING_IDS_def votes_def used_def)
qed

subsection \<open>check-voting-id writes nothing\<close>

text \<open>
  Claim C10. The check-voting-id operation, in its POST and in its GET form, is
  read-only: for every method, body, query parameter and world, and so for every
  outcome, it sends no write request for any of the four documents; the repository
  changes only by what other writers do, and is unchanged when there are none.
\<close>

theorem check_voting_id_read_only:
  "filter is_write (trace (snd (api_check_voting_id method json param w))) =
     filter is_write (trace w)
   \<and> (undisturbed (script w) \<longrightarrow>
        repo (snd (api_check_voting_id method json param w)) = repo w)"
  by (cases "api_check_voting_id method json param w")
     (auto simp: api_check_voting_id_def check_voting_id_def Let_def repo_arrive undisturbed_tl
        split: if_splits sum.splits prod.splits option.splits dest!: fetch_world)

text \<open>The POST form on a used id, with no other writer about.\<close>

theorem check_voting_id_read_only_witness:
  "undisturbed (script (world_of voted []))
   \<and> filter is_write (trace (snd (api_check_voting_id ''POST'' (Inr (js ''ABC123'')) []
        (world_of voted [])))) = []
   \<and> repo (snd (api_check_voting_id ''POST'' (Inr (js ''ABC123'')) [] (world_of voted [])))
       = voted"
  using check_voting_id_read_only [of "''POST''" "Inr (js ''ABC123'')" "[]" "world_of voted []"]
  by (simp add: undisturbed_def world_of_def)

subsection \<open>A vote with an unknown voting id\<close>

text \<open>
  Claim C9. A vote submission (a POST that carries a voting id and a party) whose
  voting id does not occur in the voting-ids collection as read is answered with
  status 401 and the body success false, message Invalid Voting ID provided for vote
  submission. Only that one read was sent: no write request for any collection, and
  the repository is as the other writers, if any, left it.
\<close>

theorem submit_vote_invalid_id:
  assumes "vd_votingId voteData \<noteq> []" and "vd_party voteData \<noteq> []"
    and "fetchGitHubFile VOTING_IDS w = (Inr validIds, w1)"
    and "find (\<lambda>item. cred_id item = vd_votingId voteData) (content validIds) = None"
  shows "api_submit_vote ''POST'' (Inr voteData) w =
           (\<lparr>statusCode = 401,
             responseBody = Msg False ''Invalid Voting ID provided for vote submission.''\<rparr>,
            w1)
         \<and> trace w1 = trace w @ [Fetched VOTING_IDS_PATH]
         \<and> (undisturbed (script w) \<longrightarrow> repo w1 = repo w)"
proof -
  have attempt: "submit_vote_try voteData w =
      (Break \<lparr>statusCode = 401,
        responseBody = Msg False ''Invalid Voting ID provided for vote submission.''\<rparr>, w1)"
    using assms(3,4) by (simp add: submit_vote_try_def)
  have "api_submit_vote ''POST'' (Inr voteData) w =
           (\<lparr>statusCode = 401,
             responseBody = Msg False ''Invalid Voting ID provided for vote submission.''\<rparr>,
            w1)"
    using assms(1,2) by (simp add: api_submit_vote_def submit_vote_def retry_loop_first attempt)
  moreover have "w1 = (arrive w)\<lparr>trace := trace w @ [Fetched (doc_path VOTING_IDS)]\<rparr>"
    using assms(3) by (rule fetch_world)
  ultimately show ?thesis
    by (simp add: VOTING_IDS_def repo_arrive)
qed

text \<open>The id ZZZ against the two credentials ABC123 and XYZ789.\<close>

theorem submit_vote_invalid_id_witness:
  "vd_votingId stranger \<noteq> [] \<and> vd_party stranger \<noteq> []
   \<and> fetchGitHubFile VOTING_IDS (world_of unvoted []) =
       (Inr \<lparr>content = [steve, alex], sha = Some 0\<rparr>,
        \<lparr>repo = unvoted, script = [], now = 1000, trace = [Fetched ''voting_ids.json'']\<rparr>)
   \<and> find (\<lambda>item. cred_id item = vd_votingId stranger) [steve, alex] = None
   \<and> undisturbed (script (world_of unvoted []))
   \<and> api_submit_vote ''POST'' (Inr stranger) (world_of unvoted []) =
       (\<lparr>statusCode = 401,
         responseBody = Msg False ''Invalid Voting ID provided for vote submission.''\<rparr>,
        \<lparr>repo = unvoted, script = [], now = 1000, trace = [Fetched ''voting_ids.json'']\<rparr>)"
proof -
  have h1: "vd_votingId stranger \<noteq> []" and h2: "vd_party stranger \<noteq> []"
    by (simp_all add: stranger_def)
  have h3: "fetchGitHubFile VOTING_IDS (world_of unvoted []) =
       (Inr \<lparr>content = [steve, alex], sha = Some 0\<rparr>,
        \<lparr>repo = unvoted, script = [], now = 1000, trace = [Fetched ''voting_ids.json'']\<rparr>)"
    by (simp add: store_defs path_defs world_of_def unvoted_def quiet_def)
  have h4: "find (\<lambda>item. cred_id item = vd_votingId stranger)
      (content \<lparr>content = [steve, alex], sha = Some (0::nat)\<rparr>) = None"
    by (simp add: stranger_def steve_def alex_def)
  have h5: "undisturbed (script (world_of unvoted []))"
    by (simp add: undisturbed_def world_of_def)
  have h4': "find (\<lambda>item. cred_id item = vd_votingId stranger) [steve, alex] = None"
    using h4 by simp
  from submit_vote_invalid_id [OF h1 h2 h3 h4]
  have "api_submit_vote ''POST'' (Inr stranger) (world_of unvoted []) =
       (\<lparr>statusCode = 401,
         responseBody = Msg False ''Invalid Voting ID provided for vote submission.''\<rparr>,
        \<lparr>repo = unvoted, script = [], now = 1000, trace = [Fetched ''voting_ids.json'']\<rparr>)"
    by blast
  with h1 h2 h3 h4' h5 show ?thesis
    by blast
qed

subsection \<open>A vote with a voting id that is already used\<close>

text \<open>
  Claim C5. Submitting a vote with a voting id that is already present in the
  used-voting-ids collection is idempotent: every such submission is answered with
  status 200 and the body success true, message This Voting ID has already been used to
  vote (the body has these two fields and no used field). It sends the two reads and no
  write request, so no second vote record is created, and the repository is as the
  other writers, if any, left it.
\<close>

theorem submit_vote_already_used:
  assumes "vd_votingId voteData \<noteq> []" and "vd_party voteData \<noteq> []"
    and "fetchGitHubFile VOTING_IDS w = (Inr validIds, w1)"
    and "find (\<lambda>item. cred_id item = vd_votingId voteData) (content validIds) =
           Some foundIdObject"
    and "fetchGitHubFile USED_VOTING_IDS w1 = (Inr usedIdsData, w2)"
    and "vd_votingId voteData \<in> set (content usedIdsData)"
  shows "api_submit_vote ''POST'' (Inr voteData) w =
           (\<lparr>statusCode = 200,
             responseBody = Msg True ''This Voting ID has already been used to vote.''\<rparr>, w2)
         \<and> trace w2 = trace w @ [Fetched VOTING_IDS_PATH, Fetched USED_VOTING_IDS_PATH]
         \<and> (undisturbed (script w) \<longrightarrow> repo w2 = repo w)"
proof -
  have attempt: "submit_vote_try voteData w =
      (Break \<lparr>statusCode = 200,
        responseBody = Msg True ''This Voting ID has already been used to vote.''\<rparr>, w2)"
    using assms(3-6) by (simp add: submit_vote_try_def)
  have "api_submit_vote ''POST'' (Inr voteData) w =
           (\<lparr>statusCode = 200,
             responseBody = Msg True ''This Voting ID has already been used to vote.''\<rparr>, w2)"
    using assms(1,2) by (simp add: api_submit_vote_def submit_vote_def retry_loop_first attempt)
  moreover have "w1 = (arrive w)\<lparr>trace := trace w @ [Fetched (doc_path VOTING_IDS)]\<rparr>"
    using assms(3) by (rule fetch_world)
  moreover have
    "w2 = (arrive w1)\<lparr>trace := trace w1 @ [Fetched (doc_path USED_VOTING_IDS)]\<rparr>"
    using assms(5) by (rule fetch_world)
  ultimately show ?thesis
    by (simp add: VOTING_IDS_def USED_VOTING_IDS_def repo_arrive undisturbed_tl)
qed

text \<open>ABC123 votes again after its vote was recorded and its id marked.\<close>

theorem submit_vote_already_used_witness:
  "vd_votingId ballot \<noteq> [] \<and> vd_party ballot \<noteq> []
   \<and> fetchGitHubFile VOTING_IDS (world_of voted []) =
       (Inr \<lparr>content = [steve, alex], sha = Some 0\<rparr>,
        \<lparr>repo = voted, script = [], now = 1000, trace = [Fetched ''voting_ids.json'']\<rparr>)
   \<and> find (\<lambda>item. cred_id item = vd_votingId ballot) [steve, alex] = Some steve
   \<and> fetchGitHubFile USED_VOTING_IDS
        \<lparr>repo = voted, script = [], now = 1000, trace = [Fetched ''voting_ids.json'']\<rparr> =
       (Inr \<lparr>content = [js ''ABC123''], sha = Some 0\<rparr>,
        \<lparr>repo = voted, script = [], now = 1000,
         trace = [Fetched ''voting_ids.json'', Fetched ''used_voting_ids.json'']\<rparr>)
   \<and> vd_votingId ballot \<in> set [js ''ABC123'']
   \<and> undisturbed (script (world_of voted []))
   \<and> api_submit_vote ''POST'' (Inr ballot) (world_of voted []) =
       (\<lparr>statusCode = 200,
         responseBody = Msg True ''This Voting ID has already been used to vote.''\<rparr>,
        \<lparr>repo = voted, script = [], now = 1000,
         trace = [Fetched ''voting_ids.json'', Fetched ''used_voting_ids.json'']\<rparr>)"
proof -
  have h1: "vd_votingId ballot \<noteq> []" and h2: "vd_party ballot \<noteq> []"
    by (simp_all add: ballot_def)
  have h3: "fetchGitHubFile VOTING_IDS (world_of voted []) =
       (Inr \<lparr>content = [steve, alex], sha = Some 0\<rparr>,
        \<lparr>repo = voted, script = [], now = 1000, trace = [Fetched ''voting_ids.json'']\<rparr>)"
    by (simp add: store_defs path_defs world_of_def voted_def quiet_def)
  have h4: "find (\<lambda>item. cred_id item = vd_votingId ballot)
      (content \<lparr>content = [steve, alex], sha = Some (0::nat)\<rparr>) = Some steve"
    by (simp add: ballot_def steve_def alex_def)
  have h5: "fetchGitHubFile USED_VOTING_IDS
        \<lparr>repo = voted, script = [], now = 1000, trace = [Fetched ''voting_ids.json'']\<rparr> =
       (Inr \<lparr>content = [js ''ABC123''], sha = Some 0\<rparr>,
        \<lparr>repo = voted, script = [], now = 1000,
         trace = [Fetched ''voting_ids.json'', Fetched ''used_voting_ids.json'']\<rparr>)"
    by (simp add: store_defs path_defs voted_def quiet_def)
  have h6: "vd_votingId ballot \<in> set (content \<lparr>content = [js ''ABC123''], sha = Some (0::nat)\<rparr>)"
    by (simp add: ballot_def)
  have h7: "undisturbed (script (world_of voted []))"
    by (simp add: undisturbed_def world_of_def)
  have h4': "find (\<lambda>item. cred_id item = vd_votingId ballot) [steve, alex] = Some steve"
    using h4 by simp
  have h6': "vd_votingId ballot \<in> set [js ''ABC123'']"
    using h6 by simp
  from submit_vote_already_used [OF h1 h2 h3 h4 h5 h6]
  have "api_submit_vote ''POST'' (Inr ballot) (world_of voted []) =
       (\<lparr>statusCode = 200,
         responseBody = Msg True ''This Voting ID has already been used to vote.''\<rparr>,
        \<lparr>repo = voted, script = [], now = 1000,
         trace = [Fetched ''voting_ids.json'', Fetched ''used_voting_ids.json'']\<rparr>)"
    by blast
  with h1 h2 h3 h4' h5 h6' h7 show ?thesis
    by blast
qed

text \<open>
  The answer to such a submission carries no used field: the flag is reported by
  check-voting-id only.
\<close>

theorem submit_vote_already_used_counterexample:
  "fst (api_submit_vote ''POST'' (Inr ballot) (world_of voted [])) =
     \<lparr>statusCode = 200,
      responseBody = Msg True ''This Voting ID has already been used to vote.''\<rparr>
   \<and> used_of (responseBody (fst (api_submit_vote ''POST'' (Inr ballot) (world_of voted []))))
       \<noteq> Some True"
  by (simp add: api_submit_vote_def submit_vote_def submit_vote_try_def retry_loop_first
      store_defs path_defs sample_defs)

subsection \<open>A vote with a valid, unused voting id\<close>

text \<open>
  Claim C6. A vote submission (a POST that carries a voting id and a party) whose
  voting id exists in the voting-ids collection and is not yet used, whose five
  requests meet no fault and no other writer, and whose two documents to be written
  have no character above U+00FF, is answered with success true, message Vote submitted
  successfully. Exactly one vote record is appended to the votes collection: its
  votingId and party are the submitted values, its minecraftName and gameEdition are
  the playerName and gameEdition of the matching credential, its contact fields are the
  submitted ones (empty when absent) and its timestamp is the server's clock. The
  used-voting-ids collection gains exactly that voting id; the other two collections
  are untouched.
\<close>

theorem submit_vote_records_vote:
  assumes "vd_votingId voteData \<noteq> []" and "vd_party voteData \<noteq> []"
    and "calm 5 (script w)"
    and "find (\<lambda>item. cred_id item = vd_votingId voteData)
           (items (voting_ids_json (repo w))) = Some c"
    and "vd_votingId voteData \<notin> set (items (used_voting_ids_json (repo w)))"
    and "\<not> btoa_throws VOTES
           (items (votes_json (repo w)) @ [finalVoteRecord voteData c (now w)])"
    and "\<not> btoa_throws USED_VOTING_IDS
           (items (used_voting_ids_json (repo w)) @ [vd_votingId voteData])"
  shows "(case api_submit_vote ''POST'' (Inr voteData) w of (r, w') \<Rightarrow>
      r = \<lparr>statusCode = 200, responseBody = Msg True ''Vote submitted successfully.''\<rparr>
      \<and> items (votes_json (repo w')) =
          items (votes_json (repo w)) @
            [\<lparr>votingId = vd_votingId voteData, party = vd_party voteData,
              minecraftName = cred_playerName c, gameEdition = cred_gameEdition c,
              realName = vd_realName voteData, discordInsta = vd_discordInsta voteData,
              timestamp = now w\<rparr>]
      \<and> items (used_voting_ids_json (repo w')) =
          items (used_voting_ids_json (repo w)) @ [vd_votingId voteData]
      \<and> candidates_json (repo w') = candidates_json (repo w)
      \<and> voting_ids_json (repo w') = voting_ids_json (repo w))"
  by (simp add: submit_vote_calm [OF assms] store_def items_def VOTES_def USED_VOTING_IDS_def
      finalVoteRecord_def)

text \<open>ABC123 votes Red in a repository that holds the credentials and nothing else.\<close>

theorem submit_vote_records_vote_witness:
  "vd_votingId ballot \<noteq> [] \<and> vd_party ballot \<noteq> []
   \<and> calm 5 (script (world_of unvoted []))
   \<and> find (\<lambda>item. cred_id item = vd_votingId ballot)
       (items (voting_ids_json (repo (world_of unvoted [])))) = Some steve
   \<and> vd_votingId ballot \<notin> set (items (used_voting_ids_json (repo (world_of unvoted []))))
   \<and> \<not> btoa_throws VOTES (items (votes_json (repo (world_of unvoted []))) @
         [finalVoteRecord ballot steve (now (world_of unvoted []))])
   \<and> \<not> btoa_throws USED_VOTING_IDS
         (items (used_voting_ids_json (repo (world_of unvoted []))) @ [vd_votingId ballot])
   \<and> (case api_submit_vote ''POST'' (Inr ballot) (world_of unvoted []) of (r, w') \<Rightarrow>
        r = \<lparr>statusCode = 200, responseBody = Msg True ''Vote submitted successfully.''\<rparr>
        \<and> items (votes_json (repo w')) =
            [\<lparr>votingId = js ''ABC123'', party = js ''Red'', minecraftName = js ''Steve'',
              gameEdition = js ''Java'', realName = [], discordInsta = [],
              timestamp = 1000\<rparr>]
        \<and> items (used_voting_ids_json (repo w')) = [js ''ABC123''])"
proof -
  have h1: "vd_votingId ballot \<noteq> []" and h2: "vd_party ballot \<noteq> []"
    by (simp_all add: ballot_def)
  have h3: "calm 5 (script (world_of unvoted []))"
    by (simp add: world_of_def)
  have h4: "find (\<lambda>item. cred_id item = vd_votingId ballot)
       (items (voting_ids_json (repo (world_of unvoted [])))) = Some steve"
    by (simp add: world_of_def unvoted_def items_def ballot_def steve_def)
  have h5: "vd_votingId ballot \<notin>
      set (items (used_voting_ids_json (repo (world_of unvoted []))))"
    by (simp add: world_of_def unvoted_def items_def)
  have h6: "\<not> btoa_throws VOTES (items (votes_json (repo (world_of unvoted []))) @
         [finalVoteRecord ballot steve (now (world_of unvoted []))])"
    by (simp add: world_of_def unvoted_def items_def ballot_def steve_def btoa_throws_def
        VOTES_def vote_texts_def finalVoteRecord_def)
  have h7: "\<not> btoa_throws USED_VOTING_IDS
         (items (used_voting_ids_json (repo (world_of unvoted []))) @ [vd_votingId ballot])"
    by (simp add: world_of_def unvoted_def items_def ballot_def btoa_throws_def
        USED_VOTING_IDS_def)
  from submit_vote_records_vote [OF h1 h2 h3 h4 h5 h6 h7] h1 h2 h3 h4 h5 h6 h7 show ?thesis
    by (simp add: world_of_def unvoted_def items_def ballot_def steve_def split: prod.splits)
qed

text \<open>
  Three submissions for ABC123, which is a credential and is not used, that do not go
  as the claim says. GitHub answers the write of the votes with status 500: the answer
  is 500 and no record is stored. The party name has a character above U+00FF: \<open>btoa\<close>
  throws before the first write, the answer is 500 and no record is stored. Another
  client marks XYZ789 between the reads of this submission and its write of the marks:
  the answer is success, and two records for ABC123 are appended.
\<close>

theorem submit_vote_records_vote_counterexample:
  "find (\<lambda>item. cred_id item = js ''ABC123'') (items (voting_ids_json unvoted)) = Some steve
   \<and> js ''ABC123'' \<notin> set (items (used_voting_ids_json unvoted))
   \<and> statusCode (fst (api_submit_vote ''POST'' (Inr ballot)
        (world_of unvoted [quiet, quiet, quiet, server_error]))) = 500
   \<and> votes_json (repo (snd (api_submit_vote ''POST'' (Inr ballot)
        (world_of unvoted [quiet, quiet, quiet, server_error])))) = None
   \<and> statusCode (fst (api_submit_vote ''POST'' (Inr wide_ballot) (world_of unvoted []))) = 500
   \<and> trace (snd (api_submit_vote ''POST'' (Inr wide_ballot) (world_of unvoted []))) =
       [Fetched ''voting_ids.json'', Fetched ''used_voting_ids.json'', Fetched ''votes.json'']
   \<and> find (\<lambda>item. cred_id item = js ''ABC123'') (items (voting_ids_json alex_midway)) =
       Some steve
   \<and> js ''ABC123'' \<notin> set (items (used_voting_ids_json alex_midway))
   \<and> map votingId (items (votes_json alex_midway)) = [js ''XYZ789'']
   \<and> fst (api_submit_vote ''POST'' (Inr ballot) (world_of alex_midway one_mark)) =
       \<lparr>statusCode = 200, responseBody = Msg True ''Vote submitted successfully.''\<rparr>
   \<and> map votingId (items (votes_json (repo
       (snd (api_submit_vote ''POST'' (Inr ballot) (world_of alex_midway one_mark)))))) =
       [js ''XYZ789'', js ''ABC123'', js ''ABC123'']"
proof -
  have faulty: "find (\<lambda>item. cred_id item = js ''ABC123'') (items (voting_ids_json unvoted)) =
       Some steve
   \<and> js ''ABC123'' \<notin> set (items (used_voting_ids_json unvoted))
   \<and> statusCode (fst (api_submit_vote ''POST'' (Inr ballot)
        (world_of unvoted [quiet, quiet, quiet, server_error]))) = 500
   \<and> votes_json (repo (snd (api_submit_vote ''POST'' (Inr ballot)
        (world_of unvoted [quiet, quiet, quiet, server_error])))) = None
   \<and> statusCode (fst (api_submit_vote ''POST'' (Inr wide_ballot) (world_of unvoted []))) = 500
   \<and> trace (snd (api_submit_vote ''POST'' (Inr wide_ballot) (world_of unvoted []))) =
       [Fetched ''voting_ids.json'', Fetched ''used_voting_ids.json'', Fetched ''votes.json'']"
    by (simp add: api_submit_vote_def submit_vote_def submit_vote_try_def retry_loop_first
        internal_server_error_def store_defs path_defs sample_defs items_def server_error_def
        wide_ballot_def wide_def InvalidCharacterError_def)
  have before: "find (\<lambda>item. cred_id item = js ''ABC123'')
       (items (voting_ids_json alex_midway)) = Some steve
   \<and> js ''ABC123'' \<notin> set (items (used_voting_ids_json alex_midway))
   \<and> map votingId (items (votes_json alex_midway)) = [js ''XYZ789'']"
    by (simp add: alex_midway_def alex_ballot_def sample_defs items_def)
  have twice: "fst (api_submit_vote ''POST'' (Inr ballot) (world_of alex_midway one_mark)) =
       \<lparr>statusCode = 200, responseBody = Msg True ''Vote submitted successfully.''\<rparr>
   \<and> map votingId (items (votes_json (repo
       (snd (api_submit_vote ''POST'' (Inr ballot) (world_of alex_midway one_mark)))))) =
       [js ''XYZ789'', js ''ABC123'', js ''ABC123'']"
    by (simp add: api_submit_vote_def submit_vote_def submit_vote_try_def retry_loop.simps
        MAX_RETRIES_def one_mark_def marks_def alex_midway_def alex_ballot_def store_defs
        path_defs sample_defs items_def)
  from faulty before twice show ?thesis
    by blast
qed

subsection \<open>A collection that was never written\<close>

text \<open>
  Claim C8. Reading a collection that has never been written is not an error: when
  the store reports not-found, the read returns the empty sequence together with the
  absent version marker (sha null). What follows treats the collection as empty: a
  vote submitted while votes and used-voting-ids were never written (its requests
  meeting no fault and no other writer, its strings without a character above U+00FF)
  creates both, each with exactly one item, by writes that carry no version.
\<close>

theorem never_written_reads_empty:
  "(fault (next_event (script w)) = NoFault \<and> doc_read d (repo (arrive w)) = None \<longrightarrow>
      fst (fetchGitHubFile d w) = Inr \<lparr>content = [], sha = None\<rparr>)
   \<and> (vd_votingId voteData \<noteq> [] \<and> vd_party voteData \<noteq> [] \<and> calm 5 (script v) \<and>
       find (\<lambda>item. cred_id item = vd_votingId voteData)
         (items (voting_ids_json (repo v))) = Some c \<and>
       votes_json (repo v) = None \<and> used_voting_ids_json (repo v) = None \<and>
       \<not> btoa_throws VOTES [finalVoteRecord voteData c (now v)] \<and>
       \<not> btoa_throws USED_VOTING_IDS [vd_votingId voteData] \<longrightarrow>
       (case api_submit_vote ''POST'' (Inr voteData) v of (r, v') \<Rightarrow>
          r = \<lparr>statusCode = 200, responseBody = Msg True ''Vote submitted successfully.''\<rparr>
          \<and> votes_json (repo v') =
              Some \<lparr>blob_content = [finalVoteRecord voteData c (now v)], blob_sha = 0\<rparr>
          \<and> used_voting_ids_json (repo v') =
              Some \<lparr>blob_content = [vd_votingId voteData], blob_sha = 0\<rparr>
          \<and> trace v' = trace v @
              [Fetched VOTING_IDS_PATH, Fetched USED_VOTING_IDS_PATH, Fetched VOTES_PATH,
               Updated VOTES_PATH None True, Updated USED_VOTING_IDS_PATH None True]))"
proof (intro conjI impI)
  assume "fault (next_event (script w)) = NoFault \<and> doc_read d (repo (arrive w)) = None"
  then show "fst (fetchGitHubFile d w) = Inr \<lparr>content = [], sha = None\<rparr>"
    by (simp add: fetchGitHubFile_def github_get_def)
next
  assume h: "vd_votingId voteData \<noteq> [] \<and> vd_party voteData \<noteq> [] \<and> calm 5 (script v) \<and>
       find (\<lambda>item. cred_id item = vd_votingId voteData)
         (items (voting_ids_json (repo v))) = Some c \<and>
       votes_json (repo v) = None \<and> used_voting_ids_json (repo v) = None \<and>
       \<not> btoa_throws VOTES [finalVoteRecord voteData c (now v)] \<and>
       \<not> btoa_throws USED_VOTING_IDS [vd_votingId voteData]"
  then have "vd_votingId voteData \<notin> set (items (used_voting_ids_json (repo v)))"
    by (simp add: items_def)
  with h show "case api_submit_vote ''POST'' (Inr voteData) v of (r, v') \<Rightarrow>
          r = \<lparr>statusCode = 200, responseBody = Msg True ''Vote submitted successfully.''\<rparr>
          \<and> votes_json (repo v') =
              Some \<lparr>blob_content = [finalVoteRecord voteData c (now v)], blob_sha = 0\<rparr>
          \<and> used_voting_ids_json (repo v') =
              Some \<lparr>blob_content = [vd_votingId voteData], blob_sha = 0\<rparr>
          \<and> trace v' = trace v @
              [Fetched VOTING_IDS_PATH, Fetched USED_VOTING_IDS_PATH, Fetched VOTES_PATH,
               Updated VOTES_PATH None True, Updated USED_VOTING_IDS_PATH None True]"
    by (simp add: submit_vote_calm [of voteData v c] store_def next_sha_def items_def
        VOTES_def USED_VOTING_IDS_def)
qed

text \<open>The votes document of a repository that holds only the credentials.\<close>

theorem never_written_reads_empty_witness:
  "fault (next_event (script (world_of unvoted []))) = NoFault
   \<and> doc_read VOTES (repo (arrive (world_of unvoted []))) = None
   \<and> fst (fetchGitHubFile VOTES (world_of unvoted [])) = Inr \<lparr>content = [], sha = None\<rparr>
   \<and> vd_votingId ballot \<noteq> [] \<and> vd_party ballot \<noteq> []
   \<and> calm 5 (script (world_of unvoted []))
   \<and> find (\<lambda>item. cred_id item = vd_votingId ballot)
       (items (voting_ids_json (repo (world_of unvoted [])))) = Some steve
   \<and> votes_json (repo (world_of unvoted [])) = None
   \<and> used_voting_ids_json (repo (world_of unvoted [])) = None
   \<and> \<not> btoa_throws VOTES [finalVoteRecord ballot steve (now (world_of unvoted []))]
   \<and> \<not> btoa_throws USED_VOTING_IDS [vd_votingId ballot]
   \<and> (case api_submit_vote ''POST'' (Inr ballot) (world_of unvoted []) of (r, v') \<Rightarrow>
        votes_json (repo v') =
          Some \<lparr>blob_content = [finalVoteRecord ballot steve 1000], blob_sha = 0\<rparr>
        \<and> used_voting_ids_json (repo v') =
            Some \<lparr>blob_content = [js ''ABC123''], blob_sha = 0\<rparr>
        \<and> trace v' =
            [Fetched ''voting_ids.json'', Fetched ''used_voting_ids.json'',
             Fetched ''votes.json'', Updated ''votes.json'' None True,
             Updated ''used_voting_ids.json'' None True])"
proof -
  have a1: "fault (next_event (script (world_of unvoted []))) = NoFault"
    by (simp add: world_of_def quiet_def)
  have a2: "doc_read VOTES (repo (arrive (world_of unvoted []))) = None"
    by (simp add: world_of_def arrive_def interfere_def quiet_def unvoted_def VOTES_def)
  have b1: "vd_votingId ballot \<noteq> []" and b2: "vd_party ballot \<noteq> []"
    by (simp_all add: ballot_def)
  have b3: "calm 5 (script (world_of unvoted []))"
    by (simp add: world_of_def)
  have b4: "find (\<lambda>item. cred_id item = vd_votingId ballot)
       (items (voting_ids_json (repo (world_of unvoted [])))) = Some steve"
    by (simp add: world_of_def unvoted_def items_def ballot_def steve_def)
  have b5: "votes_json (repo (world_of unvoted [])) = None"
    and b6: "used_voting_ids_json (repo (world_of unvoted [])) = None"
    by (simp_all add: world_of_def unvoted_def)
  have n: "now (world_of unvoted []) = 1000" and t: "trace (world_of unvoted []) = []"
    by (simp_all add: world_of_def)
  have b7: "\<not> btoa_throws VOTES [finalVoteRecord ballot steve (now (world_of unvoted []))]"
    by (simp add: ballot_def steve_def btoa_throws_def VOTES_def vote_texts_def
        finalVoteRecord_def)
  have b8: "\<not> btoa_throws USED_VOTING_IDS [vd_votingId ballot]"
    by (simp add: ballot_def btoa_throws_def USED_VOTING_IDS_def)
  from never_written_reads_empty
    [of "world_of unvoted []" VOTES ballot "world_of unvoted []" steve]
    a1 a2 b1 b2 b3 b4 b5 b6 b7 b8
  show ?thesis
    by (simp add: n t ballot_def path_defs split: prod.splits)
qed

subsection \<open>The second write of a vote fails for good\<close>

text \<open>
  Claim C2. In a vote submission, if the append to the votes collection succeeds and
  the write to the used-voting-ids collection that follows fails with an error whose
  message does not contain sha mismatch, the caller receives status 500 with success
  false (the message is Internal Server Error followed by the error's message), and
  nothing more is sent: the failed write is the last request, if \<open>btoa\<close> let it be
  sent at all. With no other writer about, the vote record is stored in the votes
  collection and the used-voting-ids collection is as it was, so the credential is not
  marked used.
\<close>

theorem submit_vote_second_write_fails:
  assumes "vd_votingId voteData \<noteq> []" and "vd_party voteData \<noteq> []"
    and "fetchGitHubFile VOTING_IDS w = (Inr validIds, w1)"
    and "find (\<lambda>item. cred_id item = vd_votingId voteData) (content validIds) = Some c"
    and "fetchGitHubFile USED_VOTING_IDS w1 = (Inr usedIdsData, w2)"
    and "vd_votingId voteData \<notin> set (content usedIdsData)"
    and "fetchGitHubFile VOTES w2 = (Inr votesFile, w3)"
    and "updateGitHubFile VOTES (content votesFile @ [finalVoteRecord voteData c (now w3)])
           (sha votesFile) w3 = (Inr True, w4)"
    and "updateGitHubFile USED_VOTING_IDS (content usedIdsData @ [vd_votingId voteData])
           (sha usedIdsData) w4 = (Inl e, w5)"
    and "\<not> str_includes (message e) ''sha mismatch''"
  shows "api_submit_vote ''POST'' (Inr voteData) w =
      (\<lparr>statusCode = 500,
        responseBody = Msg False (''Internal Server Error: '' @
          (if message e = [] then ''Unknown error'' else message e))\<rparr>, w5)
    \<and> trace w5 = trace w @
        [Fetched VOTING_IDS_PATH, Fetched USED_VOTING_IDS_PATH, Fetched VOTES_PATH,
         Updated VOTES_PATH (sha votesFile) True] @
        (if btoa_throws USED_VOTING_IDS (content usedIdsData @ [vd_votingId voteData])
         then [] else [Updated USED_VOTING_IDS_PATH (sha usedIdsData) False])
    \<and> (undisturbed (script w) \<longrightarrow>
         items (votes_json (repo w5)) =
           content votesFile @ [finalVoteRecord voteData c (now w)]
         \<and> used_voting_ids_json (repo w5) = used_voting_ids_json (repo w))"
proof -
  have attempt: "submit_vote_try voteData w = (Raise e, w5)"
    using assms(3-9) by (simp add: submit_vote_try_def)
  have resp: "api_submit_vote ''POST'' (Inr voteData) w =
      (\<lparr>statusCode = 500,
        responseBody = Msg False (''Internal Server Error: '' @
          (if message e = [] then ''Unknown error'' else message e))\<rparr>, w5)"
    using assms(1,2,10)
    by (simp add: api_submit_vote_def submit_vote_def retry_loop_first attempt
        internal_server_error_def)
  have w1: "w1 = (arrive w)\<lparr>trace := trace w @ [Fetched (doc_path VOTING_IDS)]\<rparr>"
    using assms(3) by (rule fetch_world)
  have w2: "w2 = (arrive w1)\<lparr>trace := trace w1 @ [Fetched (doc_path USED_VOTING_IDS)]\<rparr>"
    using assms(5) by (rule fetch_world)
  have w3: "w3 = (arrive w2)\<lparr>trace := trace w2 @ [Fetched (doc_path VOTES)]\<rparr>"
    using assms(7) by (rule fetch_world)
  have w4: "w4 = (arrive w3)\<lparr>repo := store VOTES
        (content votesFile @ [finalVoteRecord voteData c (now w3)]) (repo (arrive w3)),
      trace := trace w3 @ [Updated (doc_path VOTES) (sha votesFile) True]\<rparr>"
    using update_world [OF assms(8)] by simp
  have w5: "w5 = (if btoa_throws USED_VOTING_IDS (content usedIdsData @ [vd_votingId voteData])
      then w4
      else (arrive w4)\<lparr>trace := trace w4 @
        [Updated (doc_path USED_VOTING_IDS) (sha usedIdsData) False]\<rparr>)"
    using update_world [OF assms(9)] by auto
  have tr: "trace w5 = trace w @
        [Fetched VOTING_IDS_PATH, Fetched USED_VOTING_IDS_PATH, Fetched VOTES_PATH,
         Updated VOTES_PATH (sha votesFile) True] @
        (if btoa_throws USED_VOTING_IDS (content usedIdsData @ [vd_votingId voteData])
         then [] else [Updated USED_VOTING_IDS_PATH (sha usedIdsData) False])"
    by (simp add: w1 w2 w3 w4 w5 VOTES_def USED_VOTING_IDS_def VOTING_IDS_def)
  have frame: "items (votes_json (repo w5)) =
           content votesFile @ [finalVoteRecord voteData c (now w)]
         \<and> used_voting_ids_json (repo w5) = used_voting_ids_json (repo w)"
    if u: "undisturbed (script w)"
  proof -
    have u1: "undisturbed (tl (script w))" using u by (rule undisturbed_tl)
    have u2: "undisturbed (tl (tl (script w)))" using u1 by (rule undisturbed_tl)
    have u3: "undisturbed (tl (tl (tl (script w))))" using u2 by (rule undisturbed_tl)
    have u4: "undisturbed (tl (tl (tl (tl (script w)))))" using u3 by (rule undisturbed_tl)
    have r1: "repo w1 = repo w" using u by (simp add: w1 repo_arrive)
    have s1: "script w1 = tl (script w)" by (simp add: w1)
    have r2: "repo w2 = repo w" using u1 by (simp add: w2 repo_arrive s1 r1)
    have s2: "script w2 = tl (tl (script w))" by (simp add: w2 s1)
    have r3: "repo w3 = repo w" using u2 by (simp add: w3 repo_arrive s2 r2)
    have s3: "script w3 = tl (tl (tl (script w)))" by (simp add: w3 s2)
    have n3: "now w3 = now w" by (simp add: w1 w2 w3)
    have r4: "repo w4 = store VOTES
        (content votesFile @ [finalVoteRecord voteData c (now w)]) (repo w)"
      using u3 by (simp add: w4 repo_arrive s3 r3 n3)
    have s4: "script w4 = tl (tl (tl (tl (script w))))" by (simp add: w4 s3)
    have r5: "repo w5 = repo w4" using u4 by (simp add: w5 repo_arrive s4)
    show ?thesis
      by (simp add: r5 r4 store_def VOTES_def items_def)
  qed
  from resp tr frame show ?thesis by blast
qed

text \<open>GitHub answers the write of the marks with status 500.\<close>

theorem submit_vote_second_write_fails_witness:
  "vd_votingId ballot \<noteq> [] \<and> vd_party ballot \<noteq> []
   \<and> undisturbed (script (world_of unvoted [quiet, quiet, quiet, quiet, server_error]))
   \<and> \<not> str_includes
         (''Failed to update file on GitHub: Internal Server Error - ''
          @ error_text (JsonError (Some ''Server Error'') []))
         ''sha mismatch''
   \<and> fst (api_submit_vote ''POST'' (Inr ballot)
        (world_of unvoted [quiet, quiet, quiet, quiet, server_error])) =
       \<lparr>statusCode = 500,
        responseBody = Msg False
          (''Internal Server Error: Failed to update file on GitHub: Internal Server Error - ''
           @ error_text (JsonError (Some ''Server Error'') []))\<rparr>
   \<and> items (votes_json (repo (snd (api_submit_vote ''POST'' (Inr ballot)
        (world_of unvoted [quiet, quiet, quiet, quiet, server_error]))))) =
       [finalVoteRecord ballot steve 1000]
   \<and> used_voting_ids_json (repo (snd (api_submit_vote ''POST'' (Inr ballot)
        (world_of unvoted [quiet, quiet, quiet, quiet, server_error])))) = None"
proof -
  define w0 where "w0 = world_of unvoted [quiet, quiet, quiet, quiet, server_error]"
  define w1 where "w1 = \<lparr>repo = unvoted, script = [quiet, quiet, quiet, server_error],
    now = 1000, trace = [Fetched ''voting_ids.json'']\<rparr>"
  define w2 where "w2 = \<lparr>repo = unvoted, script = [quiet, quiet, server_error],
    now = 1000, trace = [Fetched ''voting_ids.json'', Fetched ''used_voting_ids.json'']\<rparr>"
  define w3 where "w3 = \<lparr>repo = unvoted, script = [quiet, server_error],
    now = 1000, trace = [Fetched ''voting_ids.json'', Fetched ''used_voting_ids.json'',
      Fetched ''votes.json'']\<rparr>"
  define r4 where "r4 = unvoted\<lparr>votes_json :=
    Some \<lparr>blob_content = [finalVoteRecord ballot steve 1000], blob_sha = 0\<rparr>\<rparr>"
  define w4 where "w4 = \<lparr>repo = r4, script = [server_error],
    now = 1000, trace = [Fetched ''voting_ids.json'', Fetched ''used_voting_ids.json'',
      Fetched ''votes.json'', Updated ''votes.json'' None True]\<rparr>"
  define w5 where "w5 = \<lparr>repo = r4, script = [],
    now = 1000, trace = [Fetched ''voting_ids.json'', Fetched ''used_voting_ids.json'',
      Fetched ''votes.json'', Updated ''votes.json'' None True,
      Updated ''used_voting_ids.json'' None False]\<rparr>"
  define e where
    "e = Error (''Failed to update file on GitHub: Internal Server Error - ''
          @ error_text (JsonError (Some ''Server Error'') []))"
  have h1: "vd_votingId ballot \<noteq> []" and h2: "vd_party ballot \<noteq> []"
    by (simp_all add: ballot_def)
  have h3: "fetchGitHubFile VOTING_IDS w0 = (Inr \<lparr>content = [steve, alex], sha = Some 0\<rparr>, w1)"
    by (simp add: w0_def w1_def store_defs path_defs world_of_def unvoted_def quiet_def)
  have h4: "find (\<lambda>item. cred_id item = vd_votingId ballot)
      (content \<lparr>content = [steve, alex], sha = Some (0::nat)\<rparr>) = Some steve"
    by (simp add: ballot_def steve_def)
  have h5: "fetchGitHubFile USED_VOTING_IDS w1 =
      (Inr \<lparr>content = ([]::jstring list), sha = None\<rparr>, w2)"
    by (simp add: w1_def w2_def store_defs path_defs unvoted_def quiet_def)
  have h6: "vd_votingId ballot \<notin> set (content \<lparr>content = ([]::jstring list), sha = None\<rparr>)"
    by simp
  have h7: "fetchGitHubFile VOTES w2 =
      (Inr \<lparr>content = ([]::vote_record list), sha = None\<rparr>, w3)"
    by (simp add: w2_def w3_def store_defs path_defs unvoted_def quiet_def)
  have h8: "updateGitHubFile VOTES
      (content \<lparr>content = ([]::vote_record list), sha = None\<rparr> @
         [finalVoteRecord ballot steve (now w3)])
      (sha \<lparr>content = ([]::vote_record list), sha = None\<rparr>) w3 = (Inr True, w4)"
    by (simp add: w3_def w4_def r4_def store_defs path_defs unvoted_def quiet_def
        finalVoteRecord_def ballot_def steve_def)
  have h9: "updateGitHubFile USED_VOTING_IDS
      (content \<lparr>content = ([]::jstring list), sha = None\<rparr> @ [vd_votingId ballot])
      (sha \<lparr>content = ([]::jstring list), sha = None\<rparr>) w4 = (Inl e, w5)"
    by (simp add: w4_def w5_def e_def store_defs path_defs server_error_def ballot_def)
  have h10: "\<not> str_includes (message e) ''sha mismatch''"
    by (simp add: e_def quoted_def)
  have nb: "\<not> btoa_throws USED_VOTING_IDS
      (content \<lparr>content = ([]::jstring list), sha = None\<rparr> @ [vd_votingId ballot])"
    by (simp add: btoa_throws_def USED_VOTING_IDS_def ballot_def)
  have u: "undisturbed (script w0)"
    by (simp add: w0_def world_of_def undisturbed_def quiet_def server_error_def)
  from submit_vote_second_write_fails [OF h1 h2 h3 h4 h5 h6 h7 h8 h9 h10] u
  have "api_submit_vote ''POST'' (Inr ballot) w0 =
      (\<lparr>statusCode = 500,
        responseBody = Msg False (''Internal Server Error: '' @ message e)\<rparr>, w5)"
    and "items (votes_json (repo w5)) = [finalVoteRecord ballot steve (now w0)]"
    and "used_voting_ids_json (repo w5) = used_voting_ids_json (repo w0)"
    by (simp_all add: e_def)
  with h1 h2 u h10 show ?thesis
    by (simp add: w0_def [symmetric] e_def) (simp add: w0_def world_of_def unvoted_def)
qed

text \<open>
  GitHub answers the write of the marks with status 502, which is no version conflict,
  and a body whose message mentions a sha mismatch. The votes were appended; the
  submission is not answered with 500 but tried again, appends the vote a second time
  and is answered with success.
\<close>

theorem submit_vote_second_write_fails_counterexample:
  "fst (api_submit_vote ''POST'' (Inr ballot)
        (world_of unvoted [quiet, quiet, quiet, quiet, bad_gateway_json])) =
     \<lparr>statusCode = 200, responseBody = Msg True ''Vote submitted successfully.''\<rparr>
   \<and> trace (snd (api_submit_vote ''POST'' (Inr ballot)
        (world_of unvoted [quiet, quiet, quiet, quiet, bad_gateway_json]))) =
       [Fetched ''voting_ids.json'', Fetched ''used_voting_ids.json'', Fetched ''votes.json'',
        Updated ''votes.json'' None True, Updated ''used_voting_ids.json'' None False,
        Slept 100,
        Fetched ''voting_ids.json'', Fetched ''used_voting_ids.json'', Fetched ''votes.json'',
        Updated ''votes.json'' (Some 0) True, Updated ''used_voting_ids.json'' None True]
   \<and> map votingId (items (votes_json (repo (snd (api_submit_vote ''POST'' (Inr ballot)
        (world_of unvoted [quiet, quiet, quiet, quiet, bad_gateway_json])))))) =
       [js ''ABC123'', js ''ABC123'']"
  by (simp add: api_submit_vote_def submit_vote_def submit_vote_try_def retry_loop.simps
      MAX_RETRIES_def bad_gateway_json_def store_defs path_defs sample_defs items_def)

subsection \<open>Three conflicts in a row\<close>

lemma register_try_raise:
  assumes "register_try toLowerCase c w = (Raise e, w')"
  shows "filter applied (trace w') = filter applied (trace w)"
  using assms
  by (auto simp: register_try_def split: prod.splits sum.splits if_splits bool.splits
      dest!: fetch_world update_world)

lemma submit_vote_try_raise:
  assumes "submit_vote_try vd w = (Raise e, w')"
  shows "filter (applied_outside VOTES_PATH) (trace w') =
         filter (applied_outside VOTES_PATH) (trace w)"
  using assms
  by (auto simp: submit_vote_try_def Let_def VOTES_def
      split: prod.splits sum.splits if_splits option.splits
      dest!: fetch_world update_world)

text \<open>
  Claim C3. For both retried units of work, if three consecutive attempts (MAX_RETRIES
  = 3) each end in a version conflict, an error whose message contains sha mismatch,
  the operation ends after the third backoff with the exhausted outcome and the caller
  receives status 500 with success false and a message about concurrent updates, not a
  crash. A registration has then applied no write at all; a vote submission has
  applied no write to any collection other than votes.
\<close>

theorem retries_exhausted:
  "(truthy (partyName c) \<and> truthy (candidateName c) \<and> truthy (password c) \<and>
    register_try toLowerCase c w = (Raise e1, w1) \<and> str_includes (message e1) ''sha mismatch'' \<and>
    register_try toLowerCase c (sleep 100 w1) = (Raise e2, w2) \<and>
    str_includes (message e2) ''sha mismatch'' \<and>
    register_try toLowerCase c (sleep 200 w2) = (Raise e3, w3) \<and>
    str_includes (message e3) ''sha mismatch''
    \<longrightarrow>
    api_register_candidate toLowerCase ''POST'' (Inr c) w =
      (\<lparr>statusCode = 500, responseBody = Msg False
          ''Failed to register candidate after multiple retries due to concurrent updates.''\<rparr>,
       sleep 300 w3) \<and>
    filter applied (trace (sleep 300 w3)) = filter applied (trace w))
   \<and>
   (vd_votingId vd \<noteq> [] \<and> vd_party vd \<noteq> [] \<and>
    submit_vote_try vd v = (Raise d1, v1) \<and> str_includes (message d1) ''sha mismatch'' \<and>
    submit_vote_try vd (sleep 100 v1) = (Raise d2, v2) \<and>
    str_includes (message d2) ''sha mismatch'' \<and>
    submit_vote_try vd (sleep 200 v2) = (Raise d3, v3) \<and>
    str_includes (message d3) ''sha mismatch''
    \<longrightarrow>
    api_submit_vote ''POST'' (Inr vd) v =
      (\<lparr>statusCode = 500, responseBody = Msg False
          ''Failed to submit vote after multiple retries due to concurrent updates.''\<rparr>,
       sleep 300 v3) \<and>
    filter (applied_outside VOTES_PATH) (trace (sleep 300 v3)) =
      filter (applied_outside VOTES_PATH) (trace v))"
proof (intro conjI impI)
  assume h: "truthy (partyName c) \<and> truthy (candidateName c) \<and> truthy (password c) \<and>
    register_try toLowerCase c w = (Raise e1, w1) \<and> str_includes (message e1) ''sha mismatch'' \<and>
    register_try toLowerCase c (sleep 100 w1) = (Raise e2, w2) \<and>
    str_includes (message e2) ''sha mismatch'' \<and>
    register_try toLowerCase c (sleep 200 w2) = (Raise e3, w3) \<and>
    str_includes (message e3) ''sha mismatch''"
  then have "retry_loop (register_try toLowerCase c) 0 w = (Inr None, sleep 300 w3)"
    using retry_loop_exhausted [of "register_try toLowerCase c" w e1 w1 e2 w2 e3 w3] by simp
  with h show "api_register_candidate toLowerCase ''POST'' (Inr c) w =
      (\<lparr>statusCode = 500, responseBody = Msg False
          ''Failed to register candidate after multiple retries due to concurrent updates.''\<rparr>,
       sleep 300 w3)"
    by (simp add: api_register_candidate_def register_candidate_def)
  from h have "filter applied (trace w1) = filter applied (trace w)"
    and "filter applied (trace w2) = filter applied (trace (sleep 100 w1))"
    and "filter applied (trace w3) = filter applied (trace (sleep 200 w2))"
    using register_try_raise [of toLowerCase c w e1 w1] register_try_raise [of toLowerCase c "sleep 100 w1" e2 w2]
      register_try_raise [of toLowerCase c "sleep 200 w2" e3 w3] by blast+
  then show "filter applied (trace (sleep 300 w3)) = filter applied (trace w)"
    by simp
next
  assume h: "vd_votingId vd \<noteq> [] \<and> vd_party vd \<noteq> [] \<and>
    submit_vote_try vd v = (Raise d1, v1) \<and> str_includes (message d1) ''sha mismatch'' \<and>
    submit_vote_try vd (sleep 100 v1) = (Raise d2, v2) \<and>
    str_includes (message d2) ''sha mismatch'' \<and>
    submit_vote_try vd (sleep 200 v2) = (Raise d3, v3) \<and>
    str_includes (message d3) ''sha mismatch''"
  then have "retry_loop (submit_vote_try vd) 0 v = (Inr None, sleep 300 v3)"
    using retry_loop_exhausted [of "submit_vote_try vd" v d1 v1 d2 v2 d3 v3] by simp
  with h show "api_submit_vote ''POST'' (Inr vd) v =
      (\<lparr>statusCode = 500, responseBody = Msg False
          ''Failed to submit vote after multiple retries due to concurrent updates.''\<rparr>,
       sleep 300 v3)"
    by (simp add: api_submit_vote_def submit_vote_def)
  from h have
    "filter (applied_outside VOTES_PATH) (trace v1) =
     filter (applied_outside VOTES_PATH) (trace v)"
    and "filter (applied_outside VOTES_PATH) (trace v2) =
     filter (applied_outside VOTES_PATH) (trace (sleep 100 v1))"
    and "filter (applied_outside VOTES_PATH) (trace v3) =
     filter (applied_outside VOTES_PATH) (trace (sleep 200 v2))"
    using submit_vote_try_raise [of vd v d1 v1]
      submit_vote_try_raise [of vd "sleep 100 v1" d2 v2]
      submit_vote_try_raise [of vd "sleep 200 v2" d3 v3] by blast+
  then show "filter (applied_outside VOTES_PATH) (trace (sleep 300 v3)) =
      filter (applied_outside VOTES_PATH) (trace v)"
    by simp
qed

text \<open>
  A registration whose three writes are refused, and a vote whose three writes of the
  marks come after another client's.
\<close>

theorem retries_exhausted_witness:
  "(let w1 = snd (register_try ascii_lower red contended);
        w2 = snd (register_try ascii_lower red (sleep 100 w1));
        w3 = snd (register_try ascii_lower red (sleep 200 w2));
        v0 = world_of unvoted three_marks;
        v1 = snd (submit_vote_try ballot v0);
        v2 = snd (submit_vote_try ballot (sleep 100 v1));
        v3 = snd (submit_vote_try ballot (sleep 200 v2))
    in truthy (partyName red) \<and> truthy (candidateName red) \<and> truthy (password red)
       \<and> register_try ascii_lower red contended = (Raise sha_mismatch_error, w1)
       \<and> register_try ascii_lower red (sleep 100 w1) = (Raise sha_mismatch_error, w2)
       \<and> register_try ascii_lower red (sleep 200 w2) = (Raise sha_mismatch_error, w3)
       \<and> vd_votingId ballot \<noteq> [] \<and> vd_party ballot \<noteq> []
       \<and> submit_vote_try ballot v0 = (Raise sha_mismatch_error, v1)
       \<and> submit_vote_try ballot (sleep 100 v1) = (Raise sha_mismatch_error, v2)
       \<and> submit_vote_try ballot (sleep 200 v2) = (Raise sha_mismatch_error, v3)
       \<and> str_includes (message sha_mismatch_error) ''sha mismatch''
       \<and> api_register_candidate ascii_lower ''POST'' (Inr red) contended =
           (\<lparr>statusCode = 500, responseBody = Msg False
              ''Failed to register candidate after multiple retries due to concurrent updates.''\<rparr>,
            sleep 300 w3)
       \<and> filter applied (trace (sleep 300 w3)) = []
       \<and> api_submit_vote ''POST'' (Inr ballot) v0 =
           (\<lparr>statusCode = 500, responseBody = Msg False
              ''Failed to submit vote after multiple retries due to concurrent updates.''\<rparr>,
            sleep 300 v3)
       \<and> filter (applied_outside VOTES_PATH) (trace (sleep 300 v3)) = [])"
proof -
  define w1 where "w1 = snd (register_try ascii_lower red contended)"
  define w2 where "w2 = snd (register_try ascii_lower red (sleep 100 w1))"
  define w3 where "w3 = snd (register_try ascii_lower red (sleep 200 w2))"
  define v0 where "v0 = world_of unvoted three_marks"
  define v1 where "v1 = snd (submit_vote_try ballot v0)"
  define v2 where "v2 = snd (submit_vote_try ballot (sleep 100 v1))"
  define v3 where "v3 = snd (submit_vote_try ballot (sleep 200 v2))"
  have w1: "w1 = \<lparr>repo = unvoted, script = [quiet, conflict, quiet, conflict], now = 1000,
      trace = [Fetched ''candidates.json'', Updated ''candidates.json'' None False]\<rparr>"
    by (simp add: w1_def contended_def register_try_def store_defs path_defs world_of_def
        unvoted_def conflict_def quiet_def red_def)
  have a1: "fst (register_try ascii_lower red contended) = Raise sha_mismatch_error"
    by (simp add: contended_def register_try_def store_defs path_defs world_of_def
        unvoted_def conflict_def quiet_def red_def sha_mismatch_error_def)
  have w2: "w2 = \<lparr>repo = unvoted, script = [quiet, conflict], now = 1100,
      trace = [Fetched ''candidates.json'', Updated ''candidates.json'' None False, Slept 100,
        Fetched ''candidates.json'', Updated ''candidates.json'' None False]\<rparr>"
    by (simp add: w2_def w1 register_try_def store_defs path_defs
        unvoted_def conflict_def quiet_def red_def)
  have a2: "fst (register_try ascii_lower red (sleep 100 w1)) = Raise sha_mismatch_error"
    by (simp add: w1 register_try_def store_defs path_defs
        unvoted_def conflict_def quiet_def red_def sha_mismatch_error_def)
  have a3: "fst (register_try ascii_lower red (sleep 200 w2)) = Raise sha_mismatch_error"
    by (simp add: w2 register_try_def store_defs path_defs
        unvoted_def conflict_def quiet_def red_def sha_mismatch_error_def)
  have m: "str_includes (message sha_mismatch_error) ''sha mismatch''"
    by (simp add: sha_mismatch_error_def)
  have r: "truthy (partyName red) \<and> truthy (candidateName red) \<and> truthy (password red)"
    by (simp add: red_def)
  have b: "vd_votingId ballot \<noteq> [] \<and> vd_party ballot \<noteq> []"
    by (simp add: ballot_def)
  have t0: "trace contended = []" "trace v0 = []"
    by (simp_all add: contended_def v0_def world_of_def)
  have c1: "fst (submit_vote_try ballot v0) = Raise sha_mismatch_error"
    by (simp add: v0_def three_marks_def marks_def submit_vote_try_def store_defs path_defs
        sample_defs sha_mismatch_error_def)
  have v1: "v1 = \<lparr>repo = unvoted\<lparr>
        votes_json := Some \<lparr>blob_content = [finalVoteRecord ballot steve 1000], blob_sha = 0\<rparr>,
        used_voting_ids_json := Some \<lparr>blob_content = [js ''XYZ789''], blob_sha = 0\<rparr>\<rparr>,
      script = drop 5 three_marks, now = 1000,
      trace = [Fetched ''voting_ids.json'', Fetched ''used_voting_ids.json'',
        Fetched ''votes.json'', Updated ''votes.json'' None True,
        Updated ''used_voting_ids.json'' None False]\<rparr>"
    by (simp add: v1_def v0_def three_marks_def marks_def submit_vote_try_def store_defs
        path_defs sample_defs)
  have c2: "fst (submit_vote_try ballot (sleep 100 v1)) = Raise sha_mismatch_error"
    by (simp add: v1 three_marks_def marks_def submit_vote_try_def store_defs path_defs
        sample_defs sha_mismatch_error_def)
  have v2: "v2 = \<lparr>repo = unvoted\<lparr>
        votes_json := Some \<lparr>blob_content = [finalVoteRecord ballot steve 1000,
          finalVoteRecord ballot steve 1100], blob_sha = 1\<rparr>,
        used_voting_ids_json :=
          Some \<lparr>blob_content = [js ''XYZ789'', js ''QRS456''], blob_sha = 1\<rparr>\<rparr>,
      script = drop 10 three_marks, now = 1100,
      trace = [Fetched ''voting_ids.json'', Fetched ''used_voting_ids.json'',
        Fetched ''votes.json'', Updated ''votes.json'' None True,
        Updated ''used_voting_ids.json'' None False, Slept 100,
        Fetched ''voting_ids.json'', Fetched ''used_voting_ids.json'',
        Fetched ''votes.json'', Updated ''votes.json'' (Some 0) True,
        Updated ''used_voting_ids.json'' (Some 0) False]\<rparr>"
    by (simp add: v2_def v1 three_marks_def marks_def submit_vote_try_def store_defs
        path_defs sample_defs)
  have c3: "fst (submit_vote_try ballot (sleep 200 v2)) = Raise sha_mismatch_error"
    by (simp add: v2 three_marks_def marks_def submit_vote_try_def store_defs path_defs
        sample_defs sha_mismatch_error_def)
  have h1: "register_try ascii_lower red contended = (Raise sha_mismatch_error, w1)"
    using a1 by (simp add: w1_def prod_eq_iff)
  have h2: "register_try ascii_lower red (sleep 100 w1) = (Raise sha_mismatch_error, w2)"
    using a2 by (simp add: w2_def prod_eq_iff)
  have h3: "register_try ascii_lower red (sleep 200 w2) = (Raise sha_mismatch_error, w3)"
    using a3 by (simp add: w3_def prod_eq_iff)
  have g1: "submit_vote_try ballot v0 = (Raise sha_mismatch_error, v1)"
    using c1 by (simp add: v1_def prod_eq_iff)
  have g2: "submit_vote_try ballot (sleep 100 v1) = (Raise sha_mismatch_error, v2)"
    using c2 by (simp add: v2_def prod_eq_iff)
  have g3: "submit_vote_try ballot (sleep 200 v2) = (Raise sha_mismatch_error, v3)"
    using c3 by (simp add: v3_def prod_eq_iff)
  from retries_exhausted [of red ascii_lower contended sha_mismatch_error w1 sha_mismatch_error w2
      sha_mismatch_error w3 ballot v0 sha_mismatch_error v1 sha_mismatch_error v2
      sha_mismatch_error v3] r b m h1 h2 h3 g1 g2 g3
  have "api_register_candidate ascii_lower ''POST'' (Inr red) contended =
           (\<lparr>statusCode = 500, responseBody = Msg False
              ''Failed to register candidate after multiple retries due to concurrent updates.''\<rparr>,
            sleep 300 w3)"
    and "filter applied (trace (sleep 300 w3)) = []"
    and "api_submit_vote ''POST'' (Inr ballot) v0 =
           (\<lparr>statusCode = 500, responseBody = Msg False
              ''Failed to submit vote after multiple retries due to concurrent updates.''\<rparr>,
            sleep 300 v3)"
    and "filter (applied_outside VOTES_PATH) (trace (sleep 300 v3)) = []"
    by (simp_all add: t0)
  with r b m h1 h2 h3 g1 g2 g3 show ?thesis
    unfolding Let_def w1_def [symmetric] w2_def [symmetric] w3_def [symmetric]
      v0_def [symmetric] v1_def [symmetric] v2_def [symmetric] v3_def [symmetric]
    by blast
qed

text \<open>
  A vote whose three writes of the marks come after another client's: the answer is
  the exhausted one, and three writes to the votes collection were applied.
\<close>

theorem retries_exhausted_counterexample:
  "fst (api_submit_vote ''POST'' (Inr ballot) (world_of unvoted three_marks)) =
     \<lparr>statusCode = 500, responseBody = Msg False
        ''Failed to submit vote after multiple retries due to concurrent updates.''\<rparr>
   \<and> filter applied
       (trace (snd (api_submit_vote ''POST'' (Inr ballot) (world_of unvoted three_marks)))) =
       [Updated ''votes.json'' None True, Updated ''votes.json'' (Some 0) True,
        Updated ''votes.json'' (Some 1) True]
   \<and> map votingId (items (votes_json (repo
       (snd (api_submit_vote ''POST'' (Inr ballot) (world_of unvoted three_marks)))))) =
       [js ''ABC123'', js ''ABC123'', js ''ABC123'']"
  by (simp add: api_submit_vote_def submit_vote_def submit_vote_try_def retry_loop.simps
      MAX_RETRIES_def three_marks_def marks_def store_defs path_defs sample_defs items_def)

subsection \<open>One voting id, two vote records\<close>

text \<open>
  Claim C1 does not hold of the code. One submission for ABC123, during which another
  client marks XYZ789 as used between this worker's read and its write of the
  used-voting-ids collection: the first attempt appends the vote record and then loses
  the race for the marks; the second attempt finds ABC123 unmarked and appends the
  record again. The answer is success, the votes collection holds two records for
  ABC123, and the id is marked once.
\<close>

theorem one_conflict_two_vote_records:
  "fst (api_submit_vote ''POST'' (Inr ballot) (world_of alex_midway one_mark)) =
     \<lparr>statusCode = 200, responseBody = Msg True ''Vote submitted successfully.''\<rparr>
   \<and> map votingId (items (votes_json (repo
       (snd (api_submit_vote ''POST'' (Inr ballot) (world_of alex_midway one_mark)))))) =
       [js ''XYZ789'', js ''ABC123'', js ''ABC123'']
   \<and> items (used_voting_ids_json (repo
       (snd (api_submit_vote ''POST'' (Inr ballot) (world_of alex_midway one_mark))))) =
       [js ''XYZ789'', js ''ABC123'']
   \<and> trace (snd (api_submit_vote ''POST'' (Inr ballot) (world_of alex_midway one_mark))) =
       [Fetched ''voting_ids.json'', Fetched ''used_voting_ids.json'', Fetched ''votes.json'',
        Updated ''votes.json'' (Some 0) True, Updated ''used_voting_ids.json'' None False,
        Slept 100,
        Fetched ''voting_ids.json'', Fetched ''used_voting_ids.json'', Fetched ''votes.json'',
        Updated ''votes.json'' (Some 1) True, Updated ''used_voting_ids.json'' (Some 0) True]"
  by (simp add: api_submit_vote_def submit_vote_def submit_vote_try_def retry_loop.simps
      MAX_RETRIES_def one_mark_def marks_def alex_midway_def alex_ballot_def store_defs
      path_defs sample_defs items_def)

subsection \<open>Which failures are retried\<close>













subsection \<open>Party names that differ only by letter case\<close>

lemma party_names_snoc:
  "party_names (cs @ [n]) =
     party_names cs @ (case string_of (partyName n) of None \<Rightarrow> [] | Some b \<Rightarrow> [b])"
  by (simp add: party_names_def map_filter_def split: option.splits)

lemma party_names_Cons:
  "party_names (c # cs) =
     (case string_of (partyName c) of None \<Rightarrow> [] | Some a \<Rightarrow> [a]) @ party_names cs"
  by (simp add: party_names_def map_filter_def split: option.splits)

lemma call_toLowerCase_Inr:
  "call_toLowerCase toLowerCase expr v = Inr a \<Longrightarrow> \<exists>s. v = JString s \<and> a = toLowerCase s"
  by (cases v) auto

text \<open>When the check finds no equal name, the new name is apart from every stored one.\<close>

lemma candidates_some_False_fresh:
  assumes "candidates_some toLowerCase n cs = Inr False"
    and "string_of (partyName n) = Some b"
  shows "toLowerCase b \<notin> set (map toLowerCase (party_names cs))"
  using assms
proof (induction cs)
  case Nil
  then show ?case
    by (simp add: party_names_def map_filter_def)
next
  case (Cons c cs)
  from Cons.prems(1) obtain a a' where
    a: "call_toLowerCase toLowerCase ''c.partyName'' (partyName c) = Inr a"
    and a': "call_toLowerCase toLowerCase ''newCandidate.partyName'' (partyName n) = Inr a'"
    and ne: "a \<noteq> a'" and r: "candidates_some toLowerCase n cs = Inr False"
    by (auto split: sum.splits if_splits)
  from call_toLowerCase_Inr [OF a] obtain s where s: "partyName c = JString s" "a = toLowerCase s"
    by blast
  from call_toLowerCase_Inr [OF a'] Cons.prems(2) have b: "a' = toLowerCase b"
    by auto
  from Cons.IH [OF r Cons.prems(2)] s b ne show ?case
    by (auto simp: party_names_Cons)
qed

lemma party_unique_snoc:
  assumes "party_unique toLowerCase cs" and "candidates_some toLowerCase n cs = Inr False"
  shows "party_unique toLowerCase (cs @ [n])"
proof (cases "string_of (partyName n)")
  case None
  with assms(1) show ?thesis
    by (simp add: party_unique_def party_names_snoc)
next
  case (Some b)
  with assms(1) candidates_some_False_fresh [OF assms(2) Some] show ?thesis
    by (simp add: party_unique_def party_names_snoc)
qed

text \<open>
  When the names before a stored name that equals the new one up to case are strings,
  the check finds an equal name.
\<close>

lemma candidates_some_True:
  assumes "list_all (\<lambda>x. string_of (partyName x) \<noteq> None) pre"
    and "same_up_to_case toLowerCase (partyName c) (partyName n)"
  shows "candidates_some toLowerCase n (pre @ c # post) = Inr True"
proof -
  from assms(2) obtain a b where
    c: "partyName c = JString a" and n: "partyName n = JString b"
    and eq: "toLowerCase a = toLowerCase b"
    by (cases "partyName c"; cases "partyName n") (simp_all add: same_up_to_case_def)
  from assms(1) show ?thesis
  proof (induction pre)
    case Nil
    with c n eq show ?case
      by simp
  next
    case (Cons x pre)
    then obtain s where "partyName x = JString s"
      by (cases "partyName x") simp_all
    with Cons n show ?case
      by simp
  qed
qed

lemma ext_apply_candidates:
  assumes "ext_ok toLowerCase x" and "party_unique toLowerCase (items (candidates_json r))"
  shows "party_unique toLowerCase (items (candidates_json (ext_apply x r)))"
  using assms by (cases x) (simp_all add: store_def items_def path_defs)

lemma interfere_candidates:
  assumes "list_all (ext_ok toLowerCase) xs"
    and "party_unique toLowerCase (items (candidates_json r))"
  shows "party_unique toLowerCase (items (candidates_json (interfere xs r)))"
  using assms unfolding interfere_def
  by (induction xs arbitrary: r) (simp_all add: ext_apply_candidates)

lemma tidy_next:
  "tidy toLowerCase s \<Longrightarrow>
     list_all (ext_ok toLowerCase) (interference (next_event s)) \<and> tidy toLowerCase (tl s)"
  by (cases s) (simp_all add: tidy_def quiet_def)

lemma arrive_ok: "candidates_ok toLowerCase w \<Longrightarrow> candidates_ok toLowerCase (arrive w)"
  by (simp add: candidates_ok_def arrive_def tidy_next interfere_candidates)

lemma candidates_ok_trace [simp]:
  "candidates_ok toLowerCase (w\<lparr>trace := t\<rparr>) = candidates_ok toLowerCase w"
  by (simp add: candidates_ok_def)

lemma candidates_ok_sleep [simp]:
  "candidates_ok toLowerCase (sleep ms w) = candidates_ok toLowerCase w"
  by (simp add: candidates_ok_def)

lemma fetch_candidates_ok:
  assumes "fetchGitHubFile CANDIDATES w = (Inr fd, w1)" and "candidates_ok toLowerCase w"
  shows "candidates_ok toLowerCase w1 \<and> party_unique toLowerCase (content fd)"
proof -
  have w1: "w1 = (arrive w)\<lparr>trace := trace w @ [Fetched (doc_path CANDIDATES)]\<rparr>"
    using assms(1) by (rule fetch_world)
  have ok: "candidates_ok toLowerCase (arrive w)"
    using assms(2) by (rule arrive_ok)
  have "party_unique toLowerCase (content fd)"
  proof (cases "fault (next_event (script w))")
    case NoFault
    with assms(1) ok show ?thesis
      by (auto simp: fetchGitHubFile_def github_get_def Let_def candidates_ok_def items_def
            CANDIDATES_def party_unique_def party_names_def map_filter_def
            split: option.splits)
  next
    case (Failed st stt b)
    with assms(1) show ?thesis
      by (auto simp: fetchGitHubFile_def github_get_def Let_def party_unique_def
            party_names_def map_filter_def split: if_splits)
  qed (use assms(1) in \<open>auto simp: fetchGitHubFile_def github_get_def Let_def\<close>)
  with ok show ?thesis
    by (simp add: w1)
qed

lemma register_try_ok:
  assumes "candidates_ok toLowerCase w"
  shows "candidates_ok toLowerCase (snd (register_try toLowerCase c w))"
proof (cases "fetchGitHubFile CANDIDATES w")
  case (Pair r w1)
  show ?thesis
  proof (cases r)
    case (Inl e)
    have "w1 = (arrive w)\<lparr>trace := trace w @ [Fetched (doc_path CANDIDATES)]\<rparr>"
      using Pair by (rule fetch_world)
    with Pair Inl arrive_ok [OF assms] show ?thesis
      by (simp add: register_try_def)
  next
    case (Inr fd)
    have ok1: "candidates_ok toLowerCase w1" and pu: "party_unique toLowerCase (content fd)"
      using fetch_candidates_ok [of w fd w1 toLowerCase] Pair Inr assms by simp_all
    show ?thesis
    proof (cases "candidates_some toLowerCase c (content fd)")
      case (Inl e)
      with Pair \<open>r = Inr fd\<close> ok1 show ?thesis
        by (simp add: register_try_def)
    next
      case found: (Inr b)
      show ?thesis
      proof (cases b)
        case True
        with Pair Inr found ok1 show ?thesis
          by (simp add: register_try_def)
      next
        case False
        with found have nf: "candidates_some toLowerCase c (content fd) = Inr False"
          by simp
        obtain r2 w2 where u:
          "updateGitHubFile CANDIDATES (content fd @ [c]) (sha fd) w1 = (r2, w2)"
          by (cases "updateGitHubFile CANDIDATES (content fd @ [c]) (sha fd) w1")
        have ok2: "candidates_ok toLowerCase w2"
          using update_world [OF u] arrive_ok [OF ok1] party_unique_snoc [OF pu nf] ok1
          by (auto simp: candidates_ok_def store_def CANDIDATES_def items_def)
        from Pair Inr nf u ok2 show ?thesis
          by (simp add: register_try_def split: sum.splits)
      qed
    qed
  qed
qed

lemma retry_loop_ok:
  assumes step: "\<And>u. candidates_ok toLowerCase u \<Longrightarrow> candidates_ok toLowerCase (snd (body u))"
  shows "candidates_ok toLowerCase w \<Longrightarrow> candidates_ok toLowerCase (snd (retry_loop body i w))"
proof (induction "MAX_RETRIES - i" arbitrary: i w)
  case 0
  then show ?case
    by (simp add: retry_loop.simps [of body i])
next
  case (Suc n)
  then have lt: "i < MAX_RETRIES" and n: "n = MAX_RETRIES - Suc i"
    by simp_all
  obtain st w' where b: "body w = (st, w')"
    by (cases "body w")
  have ok': "candidates_ok toLowerCase w'"
    using step [OF Suc.prems] b by simp
  show ?case
  proof (cases st)
    case (Break r)
    with b lt ok' show ?thesis
      by (simp add: retry_loop.simps [of body i])
  next
    case Next
    with b lt Suc.hyps(1) [OF n ok'] show ?thesis
      by (simp add: retry_loop.simps [of body i])
  next
    case (Raise e)
    have "candidates_ok toLowerCase (sleep (100 * (i + 1)) w')"
      using ok' by simp
    from Suc.hyps(1) [OF n this] Raise b lt ok' show ?thesis
      by (simp add: retry_loop.simps [of body i])
  qed
qed

text \<open>
  Claim C7. Candidate registration never admits two candidates whose party names
  differ only by letter case, that is, two strings that \<open>toLowerCase\<close> makes equal,
  whatever function \<open>toLowerCase\<close> is. If the candidates collection as read holds a
  candidate whose party name equals the new one up to case, and the party names stored
  before that candidate are strings, a POST that carries the three required fields ends
  with the duplicate-party rejection, status 409 with success false, after that one
  read: no write is sent and nothing is retried. And whatever the request is and
  whatever happens to it, if the stored party names were apart up to case before it,
  and the other clients' writes keep them so, they are apart after it.
\<close>

theorem duplicate_party_rejected:
  "(truthy (partyName newCandidate) \<and> truthy (candidateName newCandidate) \<and>
    truthy (password newCandidate) \<and>
    fetchGitHubFile CANDIDATES w = (Inr candidatesData, w1) \<and>
    content candidatesData = pre @ c # post \<and>
    list_all (\<lambda>x. string_of (partyName x) \<noteq> None) pre \<and>
    same_up_to_case toLowerCase (partyName c) (partyName newCandidate)
    \<longrightarrow>
    api_register_candidate toLowerCase ''POST'' (Inr newCandidate) w =
      (\<lparr>statusCode = 409,
        responseBody = Msg False ''A party with this name already exists.''\<rparr>, w1)
    \<and> trace w1 = trace w @ [Fetched CANDIDATES_PATH])
   \<and> (candidates_ok toLowerCase v \<longrightarrow>
        candidates_ok toLowerCase (snd (api_register_candidate toLowerCase method json v)))"
proof (intro conjI impI)
  assume h: "truthy (partyName newCandidate) \<and> truthy (candidateName newCandidate) \<and>
    truthy (password newCandidate) \<and>
    fetchGitHubFile CANDIDATES w = (Inr candidatesData, w1) \<and>
    content candidatesData = pre @ c # post \<and>
    list_all (\<lambda>x. string_of (partyName x) \<noteq> None) pre \<and>
    same_up_to_case toLowerCase (partyName c) (partyName newCandidate)"
  then have "candidates_some toLowerCase newCandidate (content candidatesData) = Inr True"
    using candidates_some_True [of pre toLowerCase c newCandidate post] by simp
  with h have attempt: "register_try toLowerCase newCandidate w =
      (Break \<lparr>statusCode = 409,
        responseBody = Msg False ''A party with this name already exists.''\<rparr>, w1)"
    by (simp add: register_try_def)
  with h show "api_register_candidate toLowerCase ''POST'' (Inr newCandidate) w =
      (\<lparr>statusCode = 409,
        responseBody = Msg False ''A party with this name already exists.''\<rparr>, w1)"
    by (simp add: api_register_candidate_def register_candidate_def retry_loop_first)
  from h have "w1 = (arrive w)\<lparr>trace := trace w @ [Fetched (doc_path CANDIDATES)]\<rparr>"
    using fetch_world [of CANDIDATES w "Inr candidatesData" w1] by simp
  then show "trace w1 = trace w @ [Fetched CANDIDATES_PATH]"
    by (simp add: CANDIDATES_def)
next
  assume ok: "candidates_ok toLowerCase v"
  have loop: "candidates_ok toLowerCase (snd (retry_loop (register_try toLowerCase x) 0 v))"
    for x
    using retry_loop_ok [of toLowerCase "register_try toLowerCase x" v 0] register_try_ok ok
    by blast
  show "candidates_ok toLowerCase (snd (api_register_candidate toLowerCase method json v))"
  proof (cases json)
    case (Inl m)
    with ok show ?thesis
      by (simp add: api_register_candidate_def register_candidate_def)
  next
    case (Inr x)
    with ok loop [of x] show ?thesis
      by (cases "retry_loop (register_try toLowerCase x) 0 v")
         (auto simp: api_register_candidate_def register_candidate_def
            split: sum.splits option.splits)
  qed
qed

text \<open>RED is registered while Red is a candidate.\<close>

theorem duplicate_party_rejected_witness:
  "truthy (partyName red_again) \<and> truthy (candidateName red_again) \<and>
   truthy (password red_again)
   \<and> fetchGitHubFile CANDIDATES (world_of voted []) =
       (Inr \<lparr>content = [red], sha = Some 0\<rparr>,
        \<lparr>repo = voted, script = [], now = 1000, trace = [Fetched ''candidates.json'']\<rparr>)
   \<and> list_all (\<lambda>x. string_of (partyName x) \<noteq> None) []
   \<and> same_up_to_case ascii_lower (partyName red) (partyName red_again)
   \<and> partyName red \<noteq> partyName red_again
   \<and> candidates_ok ascii_lower (world_of voted [])
   \<and> api_register_candidate ascii_lower ''POST'' (Inr red_again) (world_of voted []) =
       (\<lparr>statusCode = 409,
         responseBody = Msg False ''A party with this name already exists.''\<rparr>,
        \<lparr>repo = voted, script = [], now = 1000, trace = [Fetched ''candidates.json'']\<rparr>)
   \<and> candidates_ok ascii_lower
       (snd (api_register_candidate ascii_lower ''POST'' (Inr red_again) (world_of voted [])))"
proof -
  define w1 where
    "w1 = \<lparr>repo = voted, script = [], now = 1000, trace = [Fetched ''candidates.json'']\<rparr>"
  define fd where "fd = \<lparr>content = [red], sha = Some (0::nat)\<rparr>"
  have h1: "truthy (partyName red_again) \<and> truthy (candidateName red_again) \<and>
      truthy (password red_again)"
    by (simp add: red_again_def js_def)
  have h2: "fetchGitHubFile CANDIDATES (world_of voted []) = (Inr fd, w1)"
    by (simp add: w1_def fd_def store_defs path_defs world_of_def voted_def quiet_def)
  have h3: "content fd = [] @ red # []"
    by (simp add: fd_def)
  have h4: "list_all (\<lambda>x. string_of (partyName x) \<noteq> None) []"
    by simp
  have h5: "same_up_to_case ascii_lower (partyName red) (partyName red_again)"
    by (simp add: same_up_to_case_def red_def red_again_def ascii_lower_def js_def)
  have h6: "partyName red \<noteq> partyName red_again"
    by (simp add: red_def red_again_def js_def)
  have h7: "candidates_ok ascii_lower (world_of voted [])"
    by (simp add: candidates_ok_def party_unique_def party_names_def map_filter_def tidy_def
        items_def world_of_def voted_def red_def)
  note inst = duplicate_party_rejected [of red_again "world_of voted []" fd w1 "[]" red "[]"
      ascii_lower "world_of voted []" "''POST''" "Inr red_again"]
  from inst h1 h2 h3 h4 h5
  have c1: "api_register_candidate ascii_lower ''POST'' (Inr red_again) (world_of voted []) =
      (\<lparr>statusCode = 409,
         responseBody = Msg False ''A party with this name already exists.''\<rparr>, w1)"
    by blast
  from inst h7
  have c2: "candidates_ok ascii_lower
       (snd (api_register_candidate ascii_lower ''POST'' (Inr red_again) (world_of voted [])))"
    by blast
  from h1 h2 h4 h5 h6 h7 c1 c2 show ?thesis
    unfolding w1_def fd_def by blast
qed

text \<open>
  Red is a candidate, but the candidate stored before it has the number 5 for its party
  name: the check throws a TypeError at that candidate, and the registration of RED is
  answered with status 500 instead of the rejection. The worker registers a candidate
  whose party name is a number when the collection is empty.
\<close>

theorem duplicate_party_rejected_counterexample:
  "items (candidates_json numbered) = [five, red]
   \<and> same_up_to_case ascii_lower (partyName red) (partyName red_again)
   \<and> api_register_candidate ascii_lower ''POST'' (Inr red_again) (world_of numbered []) =
       (\<lparr>statusCode = 500,
         responseBody = Msg False
           ''Internal Server Error: c.partyName.toLowerCase is not a function''\<rparr>,
        \<lparr>repo = numbered, script = [], now = 1000, trace = [Fetched ''candidates.json'']\<rparr>)
   \<and> fst (api_register_candidate ascii_lower ''POST'' (Inr five) (world_of unvoted [])) =
       \<lparr>statusCode = 200, responseBody = Msg True ''Candidate registered successfully.''\<rparr>
   \<and> items (candidates_json (repo (snd (api_register_candidate ascii_lower ''POST'' (Inr five)
        (world_of unvoted []))))) = [five]"
  by (simp add: api_register_candidate_def register_candidate_def register_try_def
      retry_loop_first internal_server_error_def same_up_to_case_def ascii_lower_def js_def
      store_defs path_defs sample_defs items_def numbered_def five_def red_again_def wide_def
      InvalidCharacterError_def)


end
